theory Spec2Isabelle
  imports Main "HOL-Library.Sublist"
begin

section \<open>RenameMedia: a shallow embedding of \<^verbatim>\<open>Rename.py\<close>\<close>

text \<open>
  Conventions of the embedding.
  \<^item> A Python \<^verbatim>\<open>str\<close> is a \<^typ>\<open>string\<close>. A character outside ASCII is read as
    its UTF-8 byte sequence; every character the code searches for or replaces is
    ASCII, apart from the table of \<^verbatim>\<open>__remove_unicode\<close>, whose entries are written as
    their UTF-8 bytes. Replacing or searching ASCII characters in UTF-8 text gives the
    UTF-8 text of the result on code points.
  \<^item> Paths follow \<^verbatim>\<open>posixpath\<close> (the \<^verbatim>\<open>linux\<close> branch of the platform test at
    the top of the file): \<^verbatim>\<open>os.sep\<close> is \<^verbatim>\<open>/\<close>.
\<close>

subsection \<open>\<^verbatim>\<open>RenameMedia.remove_invalid_characters\<close> (lines 82-102)\<close>

text \<open>\<^verbatim>\<open>name.replace(character, new)\<close> for a one-character \<^verbatim>\<open>character\<close>.\<close>

definition replace_char :: "char \<Rightarrow> string \<Rightarrow> string \<Rightarrow> string" where
  "replace_char c new s = concat (map (\<lambda>x. if x = c then new else [x]) s)"

text \<open>
  The dictionary \<^verbatim>\<open>invalid_characters\<close>, in insertion order, which is the order in
  which \<^verbatim>\<open>for character in invalid_characters\<close> visits its keys.
\<close>

definition invalid_characters :: "(char \<times> string) list" where
  "invalid_characters =
     [(CHR ''<'', ''''), (CHR ''>'', ''''), (CHR '':'', '' -''), (CHR 0x22, ''''),
      (CHR ''/'', ''''), (CHR 0x5C, ''''), (CHR ''|'', ''''), (CHR ''?'', ''.''),
      (CHR ''*'', '''')]"

definition invalid_filenames :: "string list" where
  "invalid_filenames =
     [''AUX'',
      ''COM1'', ''COM2'', ''COM3'', ''COM4'', ''COM5'', ''COM6'', ''COM7'', ''COM8'', ''COM9'',
      ''CON'',
      ''LPT1'', ''LPT2'', ''LPT3'', ''LPT4'', ''LPT5'', ''LPT6'', ''LPT7'', ''LPT8'', ''LPT9'',
      ''NUL'',
      ''PRN'']"

text \<open>
  \<^verbatim>\<open>re.search(r"\.{1,}\?", name)\<close>: \<open>dots_question_at s\<close> is a match of the pattern
  starting at the first character of \<open>s\<close> (one or more dots, then a question mark);
  the search tries every start position.
\<close>

fun dots_question_at :: "string \<Rightarrow> bool" where
  "dots_question_at (a # b # cs) =
     (a = CHR ''.'' \<and> (b = CHR ''?'' \<or> dots_question_at (b # cs)))"
| "dots_question_at _ = False"

fun search_dots_question :: "string \<Rightarrow> bool" where
  "search_dots_question [] = False"
| "search_dots_question (c # cs) = (dots_question_at (c # cs) \<or> search_dots_question cs)"

text \<open>The loop over the dictionary (lines 93-97); the second argument is \<^verbatim>\<open>name\<close>.\<close>

fun substitute :: "(char \<times> string) list \<Rightarrow> string \<Rightarrow> string" where
  "substitute [] name = name"
| "substitute ((character, new) # rest) name =
     substitute rest
       (if character \<noteq> CHR ''?'' \<or> (character = CHR ''?'' \<and> \<not> search_dots_question name)
        then replace_char character new name
        else if character = CHR ''?'' then replace_char character '''' name
        else name)"

definition remove_invalid_characters :: "string \<Rightarrow> string" where
  "remove_invalid_characters name =
     (let name = substitute invalid_characters name
      in if name \<in> set invalid_filenames then name @ ''.'' else name)"

subsection \<open>The mapping as the specification words it\<close>

text \<open>
  The seven characters that are dropped, and the image of one character under the
  documented mapping, with the image \<open>q\<close> of the question mark left open.
\<close>

definition dropped_characters :: "char list" where
  "dropped_characters =
     [CHR ''<'', CHR ''>'', CHR 0x22, CHR ''/'', CHR 0x5C, CHR ''|'', CHR ''*'']"

definition char_image :: "string \<Rightarrow> char \<Rightarrow> string" where
  "char_image q c =
     (if c \<in> set dropped_characters then ''''
      else if c = CHR '':'' then '' -''
      else if c = CHR ''?'' then q
      else [c])"

text \<open>
  The name as it stands when the loop reaches the key \<^verbatim>\<open>?\<close>: the seven keys before it
  have been substituted. The test for dots before a question mark is made on this name.
\<close>

definition name_before_question :: "string \<Rightarrow> string" where
  "name_before_question name = substitute (take 7 invalid_characters) name"

definition question_image :: "string \<Rightarrow> string" where
  "question_image name =
     (if search_dots_question (name_before_question name) then '''' else ''.'')"

definition mapped_characters :: "char list" where
  "mapped_characters = CHR '':'' # CHR ''?'' # dropped_characters"


section \<open>Python values and exceptions\<close>

text \<open>
  The exceptions the program can meet. \<open>KeyError\<close> to \<open>IndexError\<close> are raised by the
  program's own expressions (their messages are not modelled); \<open>EOFError\<close> by
  \<^verbatim>\<open>input\<close> at the end of its input; the three with a message come from the operating
  system or a library; \<open>KeyboardInterrupt\<close> stands for the exceptions that derive from
  \<^verbatim>\<open>BaseException\<close> and not from \<^verbatim>\<open>Exception\<close>, which no \<^verbatim>\<open>except Exception\<close>
  clause catches.
\<close>

datatype exn =
    KeyError | TypeError | ValueError | AttributeError | IndexError | EOFError
  | OSError string | UnicodeEncodeError string | OtherException string
  | KeyboardInterrupt

fun is_Exception :: "exn \<Rightarrow> bool" where
  "is_Exception KeyboardInterrupt = False"
| "is_Exception _ = True"

text \<open>\<^verbatim>\<open>str(e)\<close>, for the log lines of \<^verbatim>\<open>__rename\<close>.\<close>

fun exn_str :: "exn \<Rightarrow> string" where
  "exn_str (OSError m) = m"
| "exn_str (UnicodeEncodeError m) = m"
| "exn_str (OtherException m) = m"
| "exn_str _ = ''''"

text \<open>
  What \<^verbatim>\<open>response.json()\<close> returns: the catalog's records. A dictionary is an
  association list; the first binding of a key is the dictionary's.
\<close>

datatype json =
    JNull | JBool bool | JInt int | JStr string | JList "json list"
  | JDict "(string \<times> json) list"

type_synonym pydict = "(string \<times> json) list"

text \<open>Truth value testing (\<^verbatim>\<open>not x\<close>, \<^verbatim>\<open>if x\<close>).\<close>

fun truthy :: "json \<Rightarrow> bool" where
  "truthy JNull = False"
| "truthy (JBool b) = b"
| "truthy (JInt i) = (i \<noteq> 0)"
| "truthy (JStr s) = (s \<noteq> [])"
| "truthy (JList xs) = (xs \<noteq> [])"
| "truthy (JDict d) = (d \<noteq> [])"

text \<open>\<^verbatim>\<open>d[k]\<close> on a dictionary.\<close>

definition dict_get :: "pydict \<Rightarrow> string \<Rightarrow> exn + json" where
  "dict_get d k = (case map_of d k of None \<Rightarrow> Inl KeyError | Some v \<Rightarrow> Inr v)"

text \<open>\<^verbatim>\<open>k in d and not d[k]\<close>, and \<^verbatim>\<open>k in d and d[k]\<close>.\<close>

definition empty_at :: "pydict \<Rightarrow> string \<Rightarrow> bool" where
  "empty_at d k = (case map_of d k of None \<Rightarrow> False | Some v \<Rightarrow> \<not> truthy v)"

definition filled_at :: "pydict \<Rightarrow> string \<Rightarrow> bool" where
  "filled_at d k = (case map_of d k of None \<Rightarrow> False | Some v \<Rightarrow> truthy v)"

text \<open>
  \<^verbatim>\<open>for x in v\<close>: a list yields its elements, a dictionary its keys, a string its
  characters; the other values are not iterable.
\<close>

fun py_iter :: "json \<Rightarrow> exn + json list" where
  "py_iter (JList xs) = Inr xs"
| "py_iter (JDict d) = Inr (map JStr (remdups (map fst d)))"
| "py_iter (JStr s) = Inr (map (\<lambda>c. JStr [c]) s)"
| "py_iter _ = Inl TypeError"

subsection \<open>Decimal numerals\<close>

definition is_digit :: "char \<Rightarrow> bool" where
  "is_digit c = (c \<in> set ''0123456789'')"

definition digit_value :: "char \<Rightarrow> nat" where
  "digit_value c = length (takeWhile (\<lambda>d. d \<noteq> c) ''0123456789'')"

text \<open>\<^verbatim>\<open>int(s)\<close> for a string of ASCII digits.\<close>

definition int_of_digits :: "string \<Rightarrow> nat" where
  "int_of_digits s = foldl (\<lambda>n c. 10 * n + digit_value c) 0 s"

text \<open>\<^verbatim>\<open>str(n)\<close> for a number: decimal, no leading zeros.\<close>

function string_of_nat :: "nat \<Rightarrow> string" where
  "string_of_nat n =
     (if n < 10 then [''0123456789'' ! n]
      else string_of_nat (n div 10) @ [''0123456789'' ! (n mod 10)])"
  by pat_completeness auto
termination
  by (relation "measure id") auto

declare string_of_nat.simps [simp del]

definition string_of_int :: "int \<Rightarrow> string" where
  "string_of_int i = (if i < 0 then ''-'' @ string_of_nat (nat (- i)) else string_of_nat (nat i))"

subsection \<open>\<^verbatim>\<open>datetime.strptime(s, '%Y-%M-%d').year\<close>\<close>

text \<open>
  The library turns the format into the regular expression
  \<^verbatim>\<open>(?P<Y>\d\d\d\d)-(?P<M>[0-5]\d|\d)-(?P<d>3[0-1]|[1-2]\d|0[1-9]|[1-9]| [1-9])\<close>,
  matches it at the start of the string, and raises \<^verbatim>\<open>ValueError\<close> when there is no
  match or when the match does not reach the end of the string. \<^verbatim>\<open>%M\<close> is the minute;
  the month stays 1, so every day from 1 to 31 is accepted. A year 0 is out of the
  range of \<^verbatim>\<open>datetime\<close>. Each function below returns the text left after the first
  match in the order in which the alternatives are tried. (\<^verbatim>\<open>\d\<close> is modelled for the
  ASCII digits.)
\<close>

definition strptime_d :: "string \<Rightarrow> string option" where
  "strptime_d s =
     (case s of
        [] \<Rightarrow> None
      | [a] \<Rightarrow> if a \<in> set ''123456789'' then Some [] else None
      | a # b # rest \<Rightarrow>
          if a = CHR ''3'' \<and> b \<in> set ''01'' then Some rest
          else if a \<in> set ''12'' \<and> is_digit b then Some rest
          else if a = CHR ''0'' \<and> b \<in> set ''123456789'' then Some rest
          else if a \<in> set ''123456789'' then Some (b # rest)
          else if a = CHR '' '' \<and> b \<in> set ''123456789'' then Some rest
          else None)"

definition strptime_dash_d :: "string \<Rightarrow> string option" where
  "strptime_dash_d s =
     (case s of [] \<Rightarrow> None | c # rest \<Rightarrow> if c = CHR ''-'' then strptime_d rest else None)"

definition strptime_M_d :: "string \<Rightarrow> string option" where
  "strptime_M_d s =
     (case s of
        [] \<Rightarrow> None
      | a # rest \<Rightarrow>
          (case (case rest of
                   [] \<Rightarrow> None
                 | b # rest' \<Rightarrow>
                     if a \<in> set ''012345'' \<and> is_digit b then strptime_dash_d rest' else None) of
             Some left \<Rightarrow> Some left
           | None \<Rightarrow> if is_digit a then strptime_dash_d rest else None))"

definition strptime_year :: "string \<Rightarrow> exn + nat" where
  "strptime_year s =
     (case s of
        y1 # y2 # y3 # y4 # rest \<Rightarrow>
          if is_digit y1 \<and> is_digit y2 \<and> is_digit y3 \<and> is_digit y4 then
            (case (case rest of
                     [] \<Rightarrow> None
                   | c # rest' \<Rightarrow> if c = CHR ''-'' then strptime_M_d rest' else None) of
               Some [] \<Rightarrow>
                 if int_of_digits [y1, y2, y3, y4] = 0 then Inl ValueError
                 else Inr (int_of_digits [y1, y2, y3, y4])
             | _ \<Rightarrow> Inl ValueError)
          else Inl ValueError
      | _ \<Rightarrow> Inl ValueError)"

section \<open>\<^verbatim>\<open>IdentifyMedia\<close>\<close>

definition SUPPORTED_TYPES :: "string list" where
  "SUPPORTED_TYPES = [''movie'', ''tv'']"

text \<open>
  \<^verbatim>\<open>re.search(rf".*{year}.*", original_folder_name)\<close>: the year is a run of digits,
  and both \<^verbatim>\<open>.*\<close> may match nothing, so the search succeeds exactly when the digits
  occur in the name.
\<close>

fun contains :: "string \<Rightarrow> string \<Rightarrow> bool" where
  "contains pat [] = (pat = [])"
| "contains pat (c # cs) = (prefix pat (c # cs) \<or> contains pat cs)"

subsection \<open>\<^verbatim>\<open>__evaluate_results\<close> (lines 394-429)\<close>

text \<open>
  The value handed to \<^verbatim>\<open>strptime\<close> in the last branch (lines 416-420): \<^verbatim>\<open>None\<close> when
  the record has neither date.
\<close>

definition result_date :: "pydict \<Rightarrow> json" where
  "result_date d =
     (if filled_at d ''release_date'' then (case map_of d ''release_date'' of None \<Rightarrow> JNull | Some v \<Rightarrow> v)
      else if filled_at d ''first_air_date'' then 
        (case map_of d ''first_air_date'' of None \<Rightarrow> JNull | Some v \<Rightarrow> v)
      else JNull)"

text \<open>\<^verbatim>\<open>datetime.strptime(year, '%Y-%M-%d').year\<close> for any value of \<^verbatim>\<open>year\<close>.\<close>

definition parse_year :: "json \<Rightarrow> exn + nat" where
  "parse_year v = (case v of JStr s \<Rightarrow> strptime_year s | _ \<Rightarrow> Inl TypeError)"

text \<open>
  One round of the loop over \<^verbatim>\<open>results['results']\<close>; \<open>potential\<close> is
  \<^verbatim>\<open>self.potential\<close>. \<^verbatim>\<open>result['media_type']\<close> raises \<^verbatim>\<open>KeyError\<close> on a dictionary
  without the key and \<^verbatim>\<open>TypeError\<close> on a value that is no dictionary. The \<^verbatim>\<open>continue\<close>
  statements end branches that are over anyway, and the debug printing is left out.
\<close>

definition evaluate_result :: "string \<Rightarrow> json \<Rightarrow> json list \<Rightarrow> exn + json list" where
  "evaluate_result original_folder_name result potential =
     (case result of
        JDict d \<Rightarrow>
          (case map_of d ''media_type'' of
             None \<Rightarrow> Inl KeyError
           | Some media_type \<Rightarrow>
               if media_type \<notin> set (map JStr SUPPORTED_TYPES) then Inr potential
               else if empty_at d ''name'' \<or> empty_at d ''title'' then Inr potential
               else if empty_at d ''release_date'' \<or> empty_at d ''first_air_date''
               then Inr potential
               else
                 (case parse_year (result_date d) of
                    Inl e \<Rightarrow> Inl e
                  | Inr year \<Rightarrow>
                      if contains (string_of_nat year) original_folder_name
                      then Inr (result # potential)
                      else Inr (potential @ [result])))
      | _ \<Rightarrow> Inl TypeError)"

fun evaluate_loop :: "string \<Rightarrow> json list \<Rightarrow> json list \<Rightarrow> exn + json list" where
  "evaluate_loop original_folder_name [] potential = Inr potential"
| "evaluate_loop original_folder_name (result # rest) potential =
     (case evaluate_result original_folder_name result potential of
        Inl e \<Rightarrow> Inl e
      | Inr potential' \<Rightarrow> evaluate_loop original_folder_name rest potential')"

text \<open>
  The method: it takes \<^verbatim>\<open>self.potential\<close> and returns its new value, or the exception
  that leaves the method.
\<close>

definition evaluate_results :: "json list \<Rightarrow> pydict \<Rightarrow> string \<Rightarrow> exn + json list" where
  "evaluate_results potential results original_folder_name =
     (case map_of results ''results'' of
        None \<Rightarrow> Inr potential
      | Some v \<Rightarrow>
          (case py_iter v of
             Inl e \<Rightarrow> Inl e
           | Inr rs \<Rightarrow> evaluate_loop original_folder_name rs []))"

subsection \<open>The ranking as the specification words it\<close>

text \<open>
  A survivor is a record that passes the three filters; its year is the one parsed
  from its date.
\<close>

definition survives :: "json \<Rightarrow> bool" where
  "survives result =
     (case result of
        JDict d \<Rightarrow>
          (case map_of d ''media_type'' of
             None \<Rightarrow> False
           | Some media_type \<Rightarrow>
               media_type \<in> set (map JStr SUPPORTED_TYPES) \<and>
               \<not> (empty_at d ''name'' \<or> empty_at d ''title'') \<and>
               \<not> (empty_at d ''release_date'' \<or> empty_at d ''first_air_date''))
      | _ \<Rightarrow> False)"

definition year_in_name :: "string \<Rightarrow> json \<Rightarrow> bool" where
  "year_in_name original_folder_name result =
     (case result of
        JDict d \<Rightarrow>
          (case parse_year (result_date d) of
             Inl e \<Rightarrow> False
           | Inr year \<Rightarrow> contains (string_of_nat year) original_folder_name)
      | _ \<Rightarrow> False)"

text \<open>The stable ranking of the specification: both groups in catalog order.\<close>

definition stable_ranking :: "string \<Rightarrow> json list \<Rightarrow> json list" where
  "stable_ranking original_folder_name rs =
     filter (year_in_name original_folder_name) (filter survives rs) @
     filter (\<lambda>r. \<not> year_in_name original_folder_name r) (filter survives rs)"

text \<open>What the loop builds: the matching survivors are put in front one by one.\<close>

definition front_ranking :: "string \<Rightarrow> json list \<Rightarrow> json list" where
  "front_ranking original_folder_name rs =
     rev (filter (year_in_name original_folder_name) (filter survives rs)) @
     filter (\<lambda>r. \<not> year_in_name original_folder_name r) (filter survives rs)"

text \<open>
  The records on which the loop raises nothing: dictionaries with a media type whose
  date, when they pass the filters, is a string that \<^verbatim>\<open>strptime\<close> accepts.
\<close>

definition well_formed_result :: "json \<Rightarrow> bool" where
  "well_formed_result result =
     (case result of
        JDict d \<Rightarrow>
          (case map_of d ''media_type'' of
             None \<Rightarrow> False
           | Some media_type \<Rightarrow>
               (if survives result
                then (case parse_year (result_date d) of Inl e \<Rightarrow> False | Inr y \<Rightarrow> True)
                else True))
      | _ \<Rightarrow> False)"

text \<open>A record with a date: one of the two date fields is present and not empty.\<close>

definition has_date :: "json \<Rightarrow> bool" where
  "has_date result =
     (case result of
        JDict d \<Rightarrow> filled_at d ''release_date'' \<or> filled_at d ''first_air_date''
      | _ \<Rightarrow> False)"

subsection \<open>Sample catalog records\<close>

definition movie_2019 :: json where
  "movie_2019 =
     JDict [(''media_type'', JStr ''movie''), (''id'', JInt 11), (''title'', JStr ''A''),
            (''release_date'', JStr ''2019-03-01'')]"

definition show_2019 :: json where
  "show_2019 =
     JDict [(''media_type'', JStr ''tv''), (''id'', JInt 12), (''name'', JStr ''B''),
            (''first_air_date'', JStr ''2019-07-09'')]"

definition show_2001 :: json where
  "show_2001 =
     JDict [(''media_type'', JStr ''tv''), (''id'', JInt 13), (''name'', JStr ''C''),
            (''first_air_date'', JStr ''2001-07-09'')]"

text \<open>A person, a show with an empty name and a movie with an empty date.\<close>

definition person_record :: json where
  "person_record = JDict [(''media_type'', JStr ''person''), (''id'', JInt 14), (''name'', JStr ''D'')]"

definition unnamed_show :: json where
  "unnamed_show =
     JDict [(''media_type'', JStr ''tv''), (''id'', JInt 15), (''name'', JStr ''''),
            (''first_air_date'', JStr ''2019-07-09'')]"

definition undated_movie :: json where
  "undated_movie =
     JDict [(''media_type'', JStr ''movie''), (''id'', JInt 16), (''title'', JStr ''E''),
            (''release_date'', JStr '''')]"

text \<open>
  A record as the typed searches (\<^verbatim>\<open>/search/movie\<close>, \<^verbatim>\<open>/search/tv\<close>) return it, without
  \<^verbatim>\<open>media_type\<close>, and a movie record that has a date and neither \<^verbatim>\<open>name\<close> nor
  \<^verbatim>\<open>title\<close>.
\<close>

definition typed_search_record :: json where
  "typed_search_record =
     JDict [(''id'', JInt 17), (''title'', JStr ''A''), (''release_date'', JStr ''2019-03-01'')]"

definition titleless_movie :: json where
  "titleless_movie =
     JDict [(''media_type'', JStr ''movie''), (''id'', JInt 18),
            (''release_date'', JStr ''2019-03-01'')]"

section \<open>The file system, the catalog and the console\<close>

text \<open>
  The program calls the operating system to rename, to create directories and to ask
  what exists. These are capabilities it invokes, so they are parameters of the model.
  A \<open>world\<close> holds the calls that change the file system, in the order issued
  (whether they succeeded or raised), and the lines printed. What a call or a question
  answers may depend on every call issued before it: that history is the state of the
  file system.

  \<open>plan\<close> is not a variable of the program. It records the destination names at the
  place where the program has computed them (lines 167-168, 210 and 222-223), so that
  two runs can be compared.
\<close>

datatype fs_call = Rename string string | Mkdir string | Makedirs string

datatype printed = Text string | Repr json

record world =
  calls :: "fs_call list"
  out :: "printed list"
  plan :: "string list list"

text \<open>
  \<open>os_rename\<close>, \<open>os_mkdir\<close> and \<open>os_makedirs\<close> give the exception the call raises, if
  any. \<open>get_tv_season\<close> is \<^verbatim>\<open>TMDB.get_tv_season\<close>: the decoded answer of the catalog,
  or the exception of the request. \<open>re_sub_special\<close> is the result of
  \<^verbatim>\<open>re.sub(fr"\.{extension}$", "", file)\<close> when the extension contains a character that
  is special in a regular expression; the extension is its first argument.
\<close>

record env =
  os_rename :: "fs_call list \<Rightarrow> string \<Rightarrow> string \<Rightarrow> exn option"
  os_mkdir :: "fs_call list \<Rightarrow> string \<Rightarrow> exn option"
  os_makedirs :: "fs_call list \<Rightarrow> string \<Rightarrow> exn option"
  os_listdir :: "fs_call list \<Rightarrow> string \<Rightarrow> exn + string list"
  os_path_exists :: "fs_call list \<Rightarrow> string \<Rightarrow> bool"
  os_path_isdir :: "fs_call list \<Rightarrow> string \<Rightarrow> bool"
  os_path_isfile :: "fs_call list \<Rightarrow> string \<Rightarrow> bool"
  get_tv_season :: "int \<Rightarrow> nat \<Rightarrow> exn + pydict"
  re_sub_special :: "string \<Rightarrow> string \<Rightarrow> exn + string"

text \<open>The fields of a \<^verbatim>\<open>RenameMedia\<close> object that are not the catalog client.\<close>

record rename_media =
  debug :: bool
  validate :: bool

type_synonym 'a outcome = "(exn + 'a) \<times> world"

definition print :: "string \<Rightarrow> world \<Rightarrow> world" where
  "print s w = w\<lparr>out := out w @ [Text s]\<rparr>"

definition newline :: string where
  "newline = [CHR 0x0A]"

subsection \<open>\<^verbatim>\<open>posixpath\<close> and \<^verbatim>\<open>pathlib\<close>\<close>

definition sep :: char where
  "sep = CHR ''/''"

definition startswith_sep :: "string \<Rightarrow> bool" where
  "startswith_sep p = (case p of [] \<Rightarrow> False | c # cs \<Rightarrow> c = sep)"

definition endswith_sep :: "string \<Rightarrow> bool" where
  "endswith_sep p = (case rev p of [] \<Rightarrow> False | c # cs \<Rightarrow> c = sep)"

text \<open>\<^verbatim>\<open>os.path.join(a, b)\<close>.\<close>

definition os_path_join :: "string \<Rightarrow> string \<Rightarrow> string" where
  "os_path_join a b =
     (if startswith_sep b then b
      else if a = [] \<or> endswith_sep a then a @ b
      else a @ [sep] @ b)"

text \<open>
  \<^verbatim>\<open>os.path.basename(p)\<close> is \<^verbatim>\<open>p[p.rfind('/') + 1:]\<close>; \<^verbatim>\<open>os.path.dirname(p)\<close> is
  \<^verbatim>\<open>p[:p.rfind('/') + 1]\<close> without its trailing slashes, unless it consists of slashes.
\<close>

definition os_path_basename :: "string \<Rightarrow> string" where
  "os_path_basename p = rev (takeWhile (\<lambda>c. c \<noteq> sep) (rev p))"

definition os_path_dirname :: "string \<Rightarrow> string" where
  "os_path_dirname p =
     (let head = rev (dropWhile (\<lambda>c. c \<noteq> sep) (rev p))
      in if head \<noteq> [] \<and> \<not> (\<forall>c\<in>set head. c = sep)
         then rev (dropWhile (\<lambda>c. c = sep) (rev head))
         else head)"

text \<open>\<^verbatim>\<open>s.split(c)\<close> for a one-character separator, and \<^verbatim>\<open>c.join(xs)\<close>.\<close>

fun split_on :: "char \<Rightarrow> string \<Rightarrow> string list" where
  "split_on c [] = [[]]"
| "split_on c (x # xs) =
     (if x = c then [] # split_on c xs
      else (case split_on c xs of [] \<Rightarrow> [[x]] | p # ps \<Rightarrow> (x # p) # ps))"

fun join_with :: "string \<Rightarrow> string list \<Rightarrow> string" where
  "join_with s [] = []"
| "join_with s [x] = x"
| "join_with s (x # y # xs) = x @ s @ join_with s (y # xs)"

text \<open>\<^verbatim>\<open>s.split(c)[-1]\<close>: the text after the last separator, the whole string without one.\<close>

definition last_piece :: "char \<Rightarrow> string \<Rightarrow> string" where
  "last_piece c s = rev (takeWhile (\<lambda>x. x \<noteq> c) (rev s))"

text \<open>
  \<^verbatim>\<open>Path(p).parts\<close>: the root (\<^verbatim>\<open>/\<close>, or \<^verbatim>\<open>//\<close> for exactly two leading slashes) if
  there is one, then the names between slashes that are neither empty nor a dot.
\<close>

definition path_root :: "string \<Rightarrow> string" where
  "path_root p =
     (case p of
        [] \<Rightarrow> []
      | c1 # p1 \<Rightarrow>
          if c1 \<noteq> sep then []
          else (case p1 of
                  [] \<Rightarrow> [sep]
                | c2 # p2 \<Rightarrow>
                    if c2 \<noteq> sep then [sep]
                    else (case p2 of
                            [] \<Rightarrow> [sep, sep]
                          | c3 # p3 \<Rightarrow> if c3 = sep then [sep] else [sep, sep])))"

definition path_parts :: "string \<Rightarrow> string list" where
  "path_parts p =
     (let names = filter (\<lambda>x. x \<noteq> [] \<and> x \<noteq> ''.'') (split_on sep p)
      in if path_root p = [] then names else path_root p # names)"

text \<open>
  \<^verbatim>\<open>str(Path(*parts))\<close> for a tuple that is the beginning of the parts of a path: the
  root followed by the names joined with slashes, and a dot for the empty tuple.
\<close>

definition path_str :: "string list \<Rightarrow> string" where
  "path_str parts =
     (case parts of
        [] \<Rightarrow> ''.''
      | r # names \<Rightarrow>
          if startswith_sep r then r @ join_with [sep] names
          else join_with [sep] (r # names))"

subsection \<open>The regular expressions of \<^verbatim>\<open>RenameMedia\<close>\<close>

definition INVALID_EXTENSIONS :: "string list" where
  "INVALID_EXTENSIONS = [''dat'', ''inf'', ''pdx'', ''txt'']"

definition RESOLUTIONS :: "string list" where
  "RESOLUTIONS = [''720p'', ''1080p'', ''2160p'']"

text \<open>
  \<^verbatim>\<open>re.search("(720p|1080p|2160p)", s)\<close>: the first position at which one of the
  alternatives starts, the alternatives tried in their order; the result is
  \<^verbatim>\<open>group(0)\<close>.
\<close>

fun search_resolution :: "string \<Rightarrow> string option" where
  "search_resolution [] = None"
| "search_resolution (c # cs) =
     (case find (\<lambda>r. prefix r (c # cs)) RESOLUTIONS of
        Some r \<Rightarrow> Some r
      | None \<Rightarrow> search_resolution cs)"

text \<open>
  \<^verbatim>\<open>re.search(r"([sS](\d{2})[eE](\d{2}))", s)\<close> followed by
  \<^verbatim>\<open>map(int, season_episode.groups()[1:3])\<close>. (\<^verbatim>\<open>\d\<close> is modelled for the ASCII
  digits.)
\<close>

fun search_season_episode :: "string \<Rightarrow> (nat \<times> nat) option" where
  "search_season_episode (s # a # b # e # c # d # rest) =
     (if s \<in> set ''sS'' \<and> is_digit a \<and> is_digit b \<and> e \<in> set ''eE'' \<and> is_digit c \<and> is_digit d
      then Some (int_of_digits [a, b], int_of_digits [c, d])
      else search_season_episode (a # b # e # c # d # rest))"
| "search_season_episode _ = None"

text \<open>
  \<^verbatim>\<open>re.sub(fr"\.{extension}$", "", file)\<close>. The extension is pasted into the pattern
  as it is. When none of its characters is special, the pattern matches a dot and the
  extension at the end of the string, or before a newline that ends the string.
  Otherwise the result is the environment's.
\<close>

definition regex_special :: "char list" where
  "regex_special =
     [CHR ''.'', CHR ''^'', CHR ''$'', CHR ''*'', CHR ''+'', CHR ''?'', CHR ''{'', CHR ''}'',
      CHR ''['', CHR '']'', CHR 0x5C, CHR ''|'', CHR ''('', CHR '')'']"

definition remove_extension :: "env \<Rightarrow> string \<Rightarrow> string \<Rightarrow> exn + string" where
  "remove_extension env extension file =
     (if \<exists>c\<in>set extension. c \<in> set regex_special then re_sub_special env extension file
      else if suffix (''.'' @ extension) file
      then Inr (take (length file - length (''.'' @ extension)) file)
      else if suffix (''.'' @ extension @ newline) file
      then Inr (take (length file - length (''.'' @ extension @ newline)) file @ newline)
      else Inr file)"

subsection \<open>\<^verbatim>\<open>RenameMedia.__remove_unicode\<close> (lines 62-80)\<close>

text \<open>\<^verbatim>\<open>text.replace(old, new)\<close> for a non-empty \<^verbatim>\<open>old\<close>: left to right, no overlaps.\<close>

function replace_str :: "string \<Rightarrow> string \<Rightarrow> string \<Rightarrow> string" where
  "replace_str old new [] = []"
| "replace_str old new (c # cs) =
     (if old \<noteq> [] \<and> prefix old (c # cs)
      then new @ replace_str old new (drop (length old) (c # cs))
      else c # replace_str old new cs)"
  by pat_completeness auto
termination
  by (relation "measure (\<lambda>(old, new, s). length s)") (auto simp add: neq_Nil_conv)

text \<open>
  The table: the en dash U+2013, the right single quotation mark U+2019 and the letters
  U+00F9 to U+00FC, each in UTF-8.
\<close>

definition replacements :: "(string \<times> string) list" where
  "replacements =
     [([CHR 0xE2, CHR 0x80, CHR 0x93], ''-''),
      ([CHR 0xE2, CHR 0x80, CHR 0x99], [CHR 0x27]),
      ([CHR 0xC3, CHR 0xB9], ''u''),
      ([CHR 0xC3, CHR 0xB9], ''u''),
      ([CHR 0xC3, CHR 0xBA], ''u''),
      ([CHR 0xC3, CHR 0xBB], ''u''),
      ([CHR 0xC3, CHR 0xBC], ''u'')]"

definition remove_unicode :: "string \<Rightarrow> string" where
  "remove_unicode text = foldl (\<lambda>t (old, new). replace_str old new t) text replacements"

subsection \<open>\<^verbatim>\<open>RenameMedia.convert_int_to_str\<close> (lines 25-30)\<close>

definition convert_int_to_str :: "nat \<Rightarrow> string" where
  "convert_int_to_str number =
     (if number < 10 then ''0'' @ string_of_nat number else string_of_nat number)"

subsection \<open>\<^verbatim>\<open>RenameMedia.__rename\<close> (lines 45-60)\<close>

text \<open>
  The call is recorded with the destination it is given, after \<^verbatim>\<open>__remove_unicode\<close>.
  The three \<^verbatim>\<open>except\<close> clauses are tried in their order; an exception that is not an
  \<^verbatim>\<open>Exception\<close> leaves the method.
\<close>

definition rename :: "env \<Rightarrow> string \<Rightarrow> string \<Rightarrow> world \<Rightarrow> unit outcome" where
  "rename env from_location to_location w =
     (let to_location = remove_unicode to_location;
          w' = w\<lparr>calls := calls w @ [Rename from_location to_location]\<rparr>
      in case os_rename env (calls w) from_location to_location of
           None \<Rightarrow> (Inr (), w')
         | Some e \<Rightarrow>
             (case e of
                UnicodeEncodeError reason \<Rightarrow>
                  (Inr (), print (''UnicodeEncodeError for '' @ to_location @ '' For:'' @
                             newline @ '' '' @ reason) w')
              | OSError reason \<Rightarrow>
                  (Inr (), print (''OSError for '' @ to_location @ '' For:'' @
                             newline @ '' '' @ reason) w')
              | _ \<Rightarrow>
                  if is_Exception e
                  then (Inr (), print (''Unable to rename '' @ from_location @ '':'' @
                                  newline @ exn_str e) w')
                  else (Inl e, w')))"

subsection \<open>\<^verbatim>\<open>RenameMedia.__rename_base_folder\<close> (lines 32-43)\<close>

definition rename_base_folder ::
  "env \<Rightarrow> rename_media \<Rightarrow> string \<Rightarrow> string \<Rightarrow> int \<Rightarrow> world \<Rightarrow> (string \<times> string) outcome" where
  "rename_base_folder env self folder name year w =
     (let media_folder_name = name @ '' ('' @ string_of_int year @ '')'';
          new_folder_name =
            os_path_join (path_str (butlast (path_parts folder))) media_folder_name @ [sep];
          w1 = print (''Renaming:'' @ newline @ folder @ newline @ ''to:'' @ newline @
                      new_folder_name) w;
          (r, w2) =
            (if \<not> os_path_exists env (calls w1) new_folder_name \<and> \<not> validate self
             then rename env folder new_folder_name w1
             else (Inr (), w1))
      in case r of
           Inl e \<Rightarrow> (Inl e, w2)
         | Inr u \<Rightarrow>
             (Inr (if \<not> validate self then new_folder_name else folder, media_folder_name), w2))"

subsection \<open>\<^verbatim>\<open>RenameMedia.__get_resolution\<close> (lines 235-240)\<close>

definition get_resolution :: "string \<Rightarrow> string \<Rightarrow> string" where
  "get_resolution item folder =
     (let resolution =
            (case search_resolution item of
               Some r \<Rightarrow> Some r
             | None \<Rightarrow> search_resolution (os_path_basename (os_path_dirname folder)))
      in case resolution of Some r \<Rightarrow> '' ['' @ r @ '']'' | None \<Rightarrow> '''')"

subsection \<open>Calls that change the file system\<close>

text \<open>
  \<^verbatim>\<open>os.makedirs(path)\<close>, \<^verbatim>\<open>os.mkdir(path)\<close> and \<^verbatim>\<open>os.rename(a, b)\<close> called directly:
  the call is recorded and its exception, if any, leaves it.
\<close>

definition makedirs :: "env \<Rightarrow> string \<Rightarrow> world \<Rightarrow> unit outcome" where
  "makedirs env path w =
     (case os_makedirs env (calls w) path of
        None \<Rightarrow> (Inr (), w\<lparr>calls := calls w @ [Makedirs path]\<rparr>)
      | Some e \<Rightarrow> (Inl e, w\<lparr>calls := calls w @ [Makedirs path]\<rparr>))"

definition mkdir :: "env \<Rightarrow> string \<Rightarrow> world \<Rightarrow> unit outcome" where
  "mkdir env path w =
     (case os_mkdir env (calls w) path of
        None \<Rightarrow> (Inr (), w\<lparr>calls := calls w @ [Mkdir path]\<rparr>)
      | Some e \<Rightarrow> (Inl e, w\<lparr>calls := calls w @ [Mkdir path]\<rparr>))"

definition raw_rename :: "env \<Rightarrow> string \<Rightarrow> string \<Rightarrow> world \<Rightarrow> unit outcome" where
  "raw_rename env from_location to_location w =
     (case os_rename env (calls w) from_location to_location of
        None \<Rightarrow> (Inr (), w\<lparr>calls := calls w @ [Rename from_location to_location]\<rparr>)
      | Some e \<Rightarrow> (Inl e, w\<lparr>calls := calls w @ [Rename from_location to_location]\<rparr>))"

text \<open>A \<^verbatim>\<open>for\<close> loop whose body may raise: the first exception ends it.\<close>

fun for_each :: "('a \<Rightarrow> world \<Rightarrow> unit outcome) \<Rightarrow> 'a list \<Rightarrow> world \<Rightarrow> unit outcome" where
  "for_each body [] w = (Inr (), w)"
| "for_each body (x # xs) w =
     (case body x w of
        (Inl e, w') \<Rightarrow> (Inl e, w')
      | (Inr u, w') \<Rightarrow> for_each body xs w')"

subsection \<open>Reading the season record (lines 154-164)\<close>

definition quote :: string where
  "quote = [CHR 0x27]"

text \<open>\<^verbatim>\<open>len(s)\<close> of a string counts code points: the bytes that do not continue one.\<close>

definition py_str_len :: "string \<Rightarrow> nat" where
  "py_str_len s = length (filter (\<lambda>c. (of_char c :: nat) div 64 \<noteq> 2) s)"

definition py_len :: "json \<Rightarrow> exn + nat" where
  "py_len v =
     (case v of
        JList xs \<Rightarrow> Inr (length xs)
      | JStr s \<Rightarrow> Inr (py_str_len s)
      | JDict d \<Rightarrow> Inr (length (remdups (map fst d)))
      | _ \<Rightarrow> Inl TypeError)"

text \<open>\<^verbatim>\<open>season_info["air_date"].split("-")[0]\<close>.\<close>

definition air_year :: "pydict \<Rightarrow> exn + string" where
  "air_year season_info =
     (case map_of season_info ''air_date'' of
        None \<Rightarrow> Inl KeyError
      | Some v \<Rightarrow>
          (case v of
             JStr s \<Rightarrow> Inr (takeWhile (\<lambda>c. c \<noteq> CHR ''-'') s)
           | _ \<Rightarrow> Inl AttributeError))"

text \<open>
  \<^verbatim>\<open>episodes[episode-1]["name"]\<close>. A negative index counts from the end of a list. A
  character of a string has no field, and a decoded dictionary has no integer key.
\<close>

definition episode_field :: "json \<Rightarrow> nat \<Rightarrow> exn + json" where
  "episode_field episodes episode =
     (case episodes of
        JList xs \<Rightarrow>
          (let n = int (length xs);
               i = int episode - 1;
               j = (if i < 0 then n + i else i)
           in if 0 \<le> j \<and> j < n
              then (case xs ! nat j of JDict d \<Rightarrow> dict_get d ''name'' | _ \<Rightarrow> Inl TypeError)
              else Inl IndexError)
      | JStr s \<Rightarrow>
          (let n = int (py_str_len s);
               i = int episode - 1;
               j = (if i < 0 then n + i else i)
           in if 0 \<le> j \<and> j < n then Inl TypeError else Inl IndexError)
      | JDict d \<Rightarrow> Inl KeyError
      | _ \<Rightarrow> Inl TypeError)"

text \<open>
  \<^verbatim>\<open>self.remove_invalid_characters(v)\<close> for any value: only a string has
  \<^verbatim>\<open>replace\<close>, which the first round of the loop calls.
\<close>

definition sanitize_value :: "json \<Rightarrow> exn + string" where
  "sanitize_value v =
     (case v of JStr s \<Rightarrow> Inr (remove_invalid_characters s) | _ \<Rightarrow> Inl AttributeError)"

subsection \<open>\<^verbatim>\<open>RenameMedia.show\<close> (lines 104-187)\<close>

text \<open>
  The method is \<open>show_tv\<close> here (\<open>show\<close> is a keyword of the proof language), and its
  parameter \<^verbatim>\<open>id\<close> is \<open>tv_id\<close>.
\<close>

text \<open>
  Lines 112-119: the files of the folder and of its subfolders. The questions are asked
  of the file system as it is before the base folder is renamed (history \<open>h\<close>).
\<close>

fun collect_files ::
  "env \<Rightarrow> fs_call list \<Rightarrow> string \<Rightarrow> string list \<Rightarrow> string list \<Rightarrow> exn + string list" where
  "collect_files env h folder [] files = Inr files"
| "collect_files env h folder (item # items) files =
     (let path = os_path_join folder item
      in if os_path_isfile env h path then collect_files env h folder items (files @ [item])
         else if os_path_isdir env h path then
           (case os_listdir env h path of
              Inl e \<Rightarrow> Inl e
            | Inr subitems \<Rightarrow>
                collect_files env h folder items (files @ map (os_path_join item) subitems))
         else collect_files env h folder items files)"

text \<open>Lines 170-185: the season folder and the move of one episode.\<close>

definition move_episode ::
  "env \<Rightarrow> rename_media \<Rightarrow> string \<Rightarrow> string \<Rightarrow> string \<Rightarrow> string \<Rightarrow> string \<Rightarrow> string \<Rightarrow> string
     \<Rightarrow> world \<Rightarrow> unit outcome" where
  "move_episode env self show_folder show_folder_name folder file_name extension
       season_folder_name new_filename w =
     (let season_folder = os_path_join show_folder season_folder_name;
          (r1, w1) =
            (if \<not> os_path_isdir env (calls w) season_folder
             then (let w' = print (''Creating '' @ season_folder) w
                   in if \<not> validate self then makedirs env season_folder w' else (Inr (), w'))
             else (Inr (), w))
      in case r1 of
           Inl e \<Rightarrow> (Inl e, w1)
         | Inr u \<Rightarrow>
             (let (r2, w2) =
                    (if \<not> validate self
                     then (let from_location =
                                 os_path_join show_folder (file_name @ ''.'' @ extension);
                               to_location = os_path_join season_folder new_filename;
                               from_location =
                                 (if \<not> os_path_exists env (calls w1)
                                         (os_path_join show_folder (file_name @ ''.'' @ extension))
                                  then os_path_join folder (file_name @ ''.'' @ extension)
                                  else from_location)
                           in rename env from_location to_location w1)
                     else (Inr (), w1))
              in case r2 of
                   Inl e \<Rightarrow> (Inl e, w2)
                 | Inr u \<Rightarrow>
                     (Inr (),
                      if debug self
                      then print (show_folder_name @ '' '' @ season_folder_name @ '' '' @
                                  new_filename) w2
                      else w2)))"

text \<open>Lines 158-168: the names of one episode, from a season record that is not a 404.\<close>

definition rename_episode ::
  "env \<Rightarrow> rename_media \<Rightarrow> string \<Rightarrow> string \<Rightarrow> string \<Rightarrow> string \<Rightarrow> string \<Rightarrow> string
     \<Rightarrow> pydict \<Rightarrow> nat \<Rightarrow> nat \<Rightarrow> world \<Rightarrow> unit outcome" where
  "rename_episode env self show_folder show_folder_name folder file_name extension resolution
       season_info season episode w =
     (case air_year season_info of
        Inl e \<Rightarrow> (Inl e, w)
      | Inr season_year \<Rightarrow>
          (case dict_get season_info ''episodes'' of
             Inl e \<Rightarrow> (Inl e, w)
           | Inr episodes \<Rightarrow>
               (case py_len episodes of
                  Inl e \<Rightarrow> (Inl e, w)
                | Inr n \<Rightarrow>
                    if n < episode
                    then (Inr (),
                          print (''Episode S'' @ convert_int_to_str season @ ''E'' @
                                 convert_int_to_str episode @ '' doesn'' @ quote @
                                 ''t appear to exist, so skipping.'') w)
                    else
                      (case episode_field episodes episode of
                         Inl e \<Rightarrow> (Inl e, w)
                       | Inr v \<Rightarrow>
                           (case sanitize_value v of
                              Inl e \<Rightarrow> (Inl e, w)
                            | Inr episode_name \<Rightarrow>
                                (let season_name =
                                       remove_invalid_characters
                                         (if season = 0 then ''Specials''
                                          else ''Season '' @ string_of_nat season);
                                     season_folder_name =
                                       season_name @ '' ('' @ season_year @ '')'' @ resolution;
                                     new_filename =
                                       ''S'' @ convert_int_to_str season @ ''E'' @
                                       convert_int_to_str episode @ '' - '' @ episode_name @
                                       ''.'' @ extension;
                                     w1 = w\<lparr>plan := plan w @
                                            [[show_folder_name, season_folder_name,
                                              new_filename]]\<rparr>
                                 in move_episode env self show_folder show_folder_name folder
                                      file_name extension season_folder_name new_filename
                                      w1))))))"

text \<open>Lines 136-185: one round of the loop over the files.\<close>

definition show_file ::
  "env \<Rightarrow> rename_media \<Rightarrow> int \<Rightarrow> string \<Rightarrow> string \<Rightarrow> string \<Rightarrow> string \<Rightarrow> world \<Rightarrow> unit outcome" where
  "show_file env self tv_id show_folder show_folder_name folder file w =
     (let extension = last_piece (CHR ''.'') file
      in if extension \<in> set INVALID_EXTENSIONS then (Inr (), w)
         else
           (case remove_extension env extension file of
              Inl e \<Rightarrow> (Inl e, w)
            | Inr file_name \<Rightarrow>
                (case search_season_episode file_name of
                   None \<Rightarrow> (Inr (), w)
                 | Some (season, episode) \<Rightarrow>
                     (let resolution =
                            (case search_resolution file_name of
                               Some r \<Rightarrow> '' ['' @ r @ '']''
                             | None \<Rightarrow> '''')
                      in case get_tv_season env tv_id season of
                           Inl e \<Rightarrow> (Inl e, w)
                         | Inr season_info \<Rightarrow>
                             if map_of season_info ''status_code'' = Some (JInt 404)
                             then
                               (let w1 = print (''Requested season '' @ string_of_nat season @
                                                '' for id '' @ string_of_int tv_id @
                                                '' and got'') w
                                in case map_of season_info ''response'' of
                                     None \<Rightarrow> (Inl KeyError, w1)
                                   | Some v \<Rightarrow> (Inr (), w1\<lparr>out := out w1 @ [Repr v]\<rparr>))
                             else rename_episode env self show_folder show_folder_name folder
                                    file_name extension resolution season_info season
                                    episode w))))"

text \<open>
  Lines 128-131: a single file is moved into the show folder, which is created first
  when it is missing. The move is a direct call of \<^verbatim>\<open>os.rename\<close>.
\<close>

definition place_file ::
  "env \<Rightarrow> rename_media \<Rightarrow> string \<Rightarrow> string \<Rightarrow> string \<Rightarrow> world \<Rightarrow> unit outcome" where
  "place_file env self item show_folder file_name w =
     (if \<not> validate self
      then (case (if \<not> os_path_isdir env (calls w) show_folder
                  then makedirs env show_folder w
                  else (Inr (), w)) of
              (Inl e, w1) \<Rightarrow> (Inl e, w1)
            | (Inr u, w1) \<Rightarrow> raw_rename env item (os_path_join show_folder file_name) w1)
      else (Inr (), w))"

definition show_tv ::
  "env \<Rightarrow> rename_media \<Rightarrow> string \<Rightarrow> int \<Rightarrow> string \<Rightarrow> int \<Rightarrow> world \<Rightarrow> unit outcome" where
  "show_tv env self item tv_id show_name year w =
     (let show_name = remove_invalid_characters show_name
      in if os_path_isdir env (calls w) item then
           (let folder = item
            in case os_listdir env (calls w) folder of
                 Inl e \<Rightarrow> (Inl e, w)
               | Inr items \<Rightarrow>
                   (case collect_files env (calls w) folder items [] of
                      Inl e \<Rightarrow> (Inl e, w)
                    | Inr files \<Rightarrow>
                        (case rename_base_folder env self folder show_name year w of
                           (Inl e, w1) \<Rightarrow> (Inl e, w1)
                         | (Inr (show_folder, show_folder_name), w1) \<Rightarrow>
                             for_each (show_file env self tv_id show_folder show_folder_name folder)
                               files w1)))
         else
           (let path = join_with [sep] (butlast (split_on sep item));
                file_name = last_piece sep item;
                show_folder_name = show_name @ '' ('' @ string_of_int year @ '')'';
                show_folder = os_path_join path show_folder_name
            in case place_file env self item show_folder file_name w of
                 (Inl e, w2) \<Rightarrow> (Inl e, w2)
               | (Inr u, w2) \<Rightarrow>
                   for_each (show_file env self tv_id show_folder show_folder_name show_folder)
                     [file_name] w2))"

subsection \<open>\<^verbatim>\<open>RenameMedia.movie\<close> (lines 189-233)\<close>

text \<open>Lines 198-215: one round of the loop over the files of the folder.\<close>

definition movie_file ::
  "env \<Rightarrow> rename_media \<Rightarrow> string \<Rightarrow> string \<Rightarrow> string \<Rightarrow> world \<Rightarrow> unit outcome" where
  "movie_file env self folder movie_folder_name file w =
     (let extension = last_piece (CHR ''.'') file
      in if extension \<in> set INVALID_EXTENSIONS then (Inr (), w)
         else
           (case remove_extension env extension file of
              Inl e \<Rightarrow> (Inl e, w)
            | Inr file_name \<Rightarrow>
                (let resolution = get_resolution file_name folder;
                     movie_file_name = movie_folder_name @ resolution @ ''.'' @ extension;
                     w1 = print (''Renaming '' @ quote @ file @ quote @ '' to '' @ quote @
                                 movie_file_name @ quote)
                            (w\<lparr>plan := plan w @ [[movie_folder_name, movie_file_name]]\<rparr>)
                 in if \<not> validate self
                    then rename env (os_path_join folder file)
                           (os_path_join folder movie_file_name) w1
                    else (Inr (), w1))))"

definition movie ::
  "env \<Rightarrow> rename_media \<Rightarrow> string \<Rightarrow> string \<Rightarrow> int \<Rightarrow> world \<Rightarrow> unit outcome" where
  "movie env self item movie_name year w =
     (let movie_name = remove_invalid_characters movie_name;
          w0 = print (string_of_int year) (print movie_name (print item w))
      in if os_path_isdir env (calls w0) item then
           (case rename_base_folder env self item movie_name year w0 of
              (Inl e, w1) \<Rightarrow> (Inl e, w1)
            | (Inr (folder, movie_folder_name), w1) \<Rightarrow>
                (case os_listdir env (calls w1) folder of
                   Inl e \<Rightarrow> (Inl e, w1)
                 | Inr files \<Rightarrow>
                     for_each (movie_file env self folder movie_folder_name) files w1))
         else
           (let base_folder = os_path_dirname item;
                original_name = os_path_basename item;
                extension = last_piece (CHR ''.'') item;
                resolution = get_resolution original_name '''';
                folder_name = movie_name @ '' ('' @ string_of_int year @ '')'';
                new_name = folder_name @ resolution @ ''.'' @ extension;
                w1 = w0\<lparr>plan := plan w0 @ [[folder_name, new_name]]\<rparr>;
                path = os_path_join base_folder folder_name
            in case (if \<not> os_path_exists env (calls w1) path \<and> \<not> validate self
                     then mkdir env path w1
                     else (Inr (), w1)) of
                 (Inl e, w2) \<Rightarrow> (Inl e, w2)
               | (Inr u, w2) \<Rightarrow>
                   (let from_location = item;
                        to_location = os_path_join path new_name;
                        w3 = print (''Renaming '' @ quote @ from_location @ quote @ '' to '' @
                                    quote @ to_location @ quote) w2
                    in if \<not> validate self then rename env from_location to_location w3
                       else (Inr (), w3))))"

section \<open>Manual entry in \<^verbatim>\<open>IdentifyMedia.identify\<close>\<close>

subsection \<open>The console\<close>

text \<open>
  What is written is kept as a list of lines, each a list of pieces: a value pasted
  into an f-string is kept as the value. \<open>stdin\<close> holds the lines that will be typed.
  \<^verbatim>\<open>input(prompt)\<close> writes the prompt and reads one line; it raises \<^verbatim>\<open>EOFError\<close> when
  there is nothing left to read.
\<close>

datatype piece = Lit string | Val json

record console =
  stdin :: "string list"
  screen :: "piece list list"

definition say :: "piece list \<Rightarrow> console \<Rightarrow> console" where
  "say pieces c = c\<lparr>screen := screen c @ [pieces]\<rparr>"

definition py_input :: "piece list \<Rightarrow> console \<Rightarrow> (exn + string) \<times> console" where
  "py_input prompt c =
     (case stdin c of
        [] \<Rightarrow> (Inl EOFError, say prompt c)
      | line # rest \<Rightarrow> (Inr line, say prompt (c\<lparr>stdin := rest\<rparr>)))"

definition dquote :: string where
  "dquote = [CHR 0x22]"

text \<open>\<^verbatim>\<open>s.lower()\<close> on the letters A to Z.\<close>

definition lower :: "string \<Rightarrow> string" where
  "lower s =
     map (\<lambda>c. if 65 \<le> (of_char c :: nat) \<and> (of_char c :: nat) \<le> 90
              then char_of ((of_char c :: nat) + 32) else c) s"

subsection \<open>The catalog client and the object\<close>

text \<open>
  The three searches of \<^verbatim>\<open>TMDB\<close> that \<^verbatim>\<open>search_media\<close> calls. Each gives the decoded
  answer of the catalog, a dictionary (\<^verbatim>\<open>request\<close> returns \<^verbatim>\<open>response.json()\<close> or a
  dictionary with the status code), or the exception of the request.
\<close>

record tmdb =
  search_tv :: "string \<Rightarrow> int option \<Rightarrow> exn + pydict"
  search_movies :: "string \<Rightarrow> int option \<Rightarrow> exn + pydict"
  search_multi :: "string \<Rightarrow> exn + pydict"

text \<open>
  The fields of an \<^verbatim>\<open>IdentifyMedia\<close> object, with the prefix \<open>im\<close>. \<^verbatim>\<open>None\<close> is \<open>None\<close>;
  \<^verbatim>\<open>self.results\<close>, which starts as an empty list, is the empty dictionary here.
\<close>

record identify_media =
  im_item :: string
  im_id :: json
  im_name :: "string option"
  im_year :: "int option"
  im_type :: "string option"
  im_identity :: "json option"
  im_results :: pydict
  im_potential :: "json list"
  im_debug :: bool

text \<open>\<^verbatim>\<open>self.identity\<close> as a condition.\<close>

definition identified :: "identify_media \<Rightarrow> bool" where
  "identified self = (case im_identity self of None \<Rightarrow> False | Some v \<Rightarrow> truthy v)"

subsection \<open>The year and the type (lines 293-310)\<close>

text \<open>
  \<^verbatim>\<open>re.search(r'^\d{4}$', year)\<close> on ASCII text: four digits, and \<^verbatim>\<open>$\<close> also matches
  before a newline that ends the string. \<^verbatim>\<open>int\<close> ignores that newline.
\<close>

definition year_format :: "string \<Rightarrow> bool" where
  "year_format s =
     (list_all is_digit (take 4 s) \<and> length (take 4 s) = 4 \<and>
      (drop 4 s = [] \<or> drop 4 s = newline))"

function ask_year :: "console \<Rightarrow> (exn + int) \<times> console" where
  "ask_year c =
     (case py_input [Lit ''What is the year of release? ''] c of
        (Inl e, c') \<Rightarrow> (Inl e, c')
      | (Inr year, c') \<Rightarrow>
          if year_format year then (Inr (int (int_of_digits (take 4 year))), c')
          else ask_year (say [Lit ''Year should be an integer.''] c'))"
  by pat_completeness auto
termination
  by (relation "measure (\<lambda>c. length (stdin c))")
    (auto simp add: py_input_def say_def split: list.splits)

declare ask_year.simps [simp del]

function ask_type :: "console \<Rightarrow> (exn + string) \<times> console" where
  "ask_type c =
     (case py_input [Lit ''What type of media is it (tv/movie)? ''] c of
        (Inl e, c') \<Rightarrow> (Inl e, c')
      | (Inr answer, c') \<Rightarrow>
          if lower (lower answer) \<in> set SUPPORTED_TYPES then (Inr (lower (lower answer)), c')
          else ask_type
                 (say [Lit (''Type should be one of '' @ join_with ''/'' SUPPORTED_TYPES @ ''.'')]
                    c'))"
  by pat_completeness auto
termination
  by (relation "measure (\<lambda>c. length (stdin c))")
    (auto simp add: py_input_def say_def split: list.splits)

declare ask_type.simps [simp del]

subsection \<open>\<^verbatim>\<open>search_media\<close> (lines 381-392)\<close>

definition search_media ::
  "tmdb \<Rightarrow> identify_media \<Rightarrow> string \<Rightarrow> console \<Rightarrow> (exn + pydict \<times> string) \<times> console" where
  "search_media catalog self potential_name c =
     (let name = (case im_name self of
                    None \<Rightarrow> potential_name
                  | Some n \<Rightarrow> if n \<noteq> [] then n else potential_name);
          c' = (if im_debug self then say [Lit (''Searching for '' @ name)] c else c);
          results = (if im_type self = Some ''tv'' then search_tv catalog name (im_year self)
                     else if im_type self = Some ''movie''
                     then search_movies catalog name (im_year self)
                     else search_multi catalog name)
      in case results of
           Inl e \<Rightarrow> (Inl e, c')
         | Inr r \<Rightarrow> (Inr (r, name), c'))"

subsection \<open>A call of \<^verbatim>\<open>__evaluate_results\<close>\<close>

text \<open>
  The method is declared with two parameters after \<^verbatim>\<open>self\<close>: \<^verbatim>\<open>results\<close> and
  \<^verbatim>\<open>original_folder_name\<close>, neither with a default (line 394). A call binds its
  positional arguments to them before the body runs, and raises \<^verbatim>\<open>TypeError\<close> when their
  number is not two. \<open>others\<close> holds the arguments of the call that follow \<^verbatim>\<open>results\<close>.
\<close>

definition call_evaluate_results ::
  "identify_media \<Rightarrow> pydict \<Rightarrow> string list \<Rightarrow> exn + identify_media" where
  "call_evaluate_results self results others =
     (case others of
        [original_folder_name] \<Rightarrow>
          (case evaluate_results (im_potential self) results original_folder_name of
             Inl e \<Rightarrow> Inl e
           | Inr potential \<Rightarrow> Inr (self\<lparr>im_potential := potential\<rparr>))
      | _ \<Rightarrow> Inl TypeError)"

subsection \<open>\<^verbatim>\<open>confirm_identity\<close> (lines 339-379)\<close>

text \<open>
  The loop that asks whether a record is the right one (lines 354-365), for a record
  \<open>result\<close> and the keys \<open>name\<close> and \<open>date\<close> chosen for it. It returns the answer and the
  title. A title that is no string has no \<^verbatim>\<open>replace\<close>. \<^verbatim>\<open>IdentifyMedia.__remove_unicode\<close>
  (lines 319-337) has the table of \<^verbatim>\<open>RenameMedia.__remove_unicode\<close>.
\<close>

function ask_response ::
  "identify_media \<Rightarrow> pydict \<Rightarrow> string \<Rightarrow> string \<Rightarrow> console
     \<Rightarrow> (exn + string \<times> string) \<times> console" where
  "ask_response self result name date c =
     (let c1 = say [Lit (newline @ ''For '' @ dquote @ im_item self @ dquote)] c
      in case map_of result name of
           None \<Rightarrow> (Inl KeyError, c1)
         | Some (JStr s) \<Rightarrow>
             (let title = remove_unicode s
              in case map_of result date of
                   None \<Rightarrow> (Inl KeyError, c1)
                 | Some d \<Rightarrow>
                     (case (case im_type self of
                              None \<Rightarrow>
                                (case map_of result ''media_type'' of
                                   None \<Rightarrow> Inl KeyError
                                 | Some m \<Rightarrow> Inr (Val m))
                            | Some t \<Rightarrow> Inr (Lit t)) of
                        Inl e \<Rightarrow> (Inl e, c1)
                      | Inr shown \<Rightarrow>
                          (case py_input [Lit (''Is '' @ dquote @ title @ dquote @ '' '' @ dquote),
                                          Val d, Lit (dquote @ '' '' @ dquote), shown,
                                          Lit (dquote @ '' correct? '')] c1 of
                             (Inl e, c2) \<Rightarrow> (Inl e, c2)
                           | (Inr response, c2) \<Rightarrow>
                               if lower response \<in> set [''y'', ''n'', ''s'']
                               then (Inr (lower response, title), c2)
                               else ask_response self result name date
                                      (say [Lit (''Invlaid response of '' @ response)] c2))))
         | Some _ \<Rightarrow> (Inl AttributeError, c1))"
  by pat_completeness auto
termination
  by (relation "measure (\<lambda>(self, result, name, date, c). length (stdin c))")
    (auto simp add: py_input_def say_def split: list.splits)

declare ask_response.simps [simp del]

text \<open>
  One round of the loop over \<^verbatim>\<open>self.potential\<close>: \<open>None\<close> when the round ends with
  \<^verbatim>\<open>continue\<close>, the object when it ends with \<^verbatim>\<open>break\<close>. \<^verbatim>\<open>__evaluate_results\<close> adds
  dictionaries only, and the state of the object is not followed after an exception.
  When \<^verbatim>\<open>self.type\<close> is \<^verbatim>\<open>None\<close> the round gets past the first test only with a
  \<^verbatim>\<open>media_type\<close> that is one of the two strings, which then becomes the type.
\<close>

definition confirm_result ::
  "identify_media \<Rightarrow> json \<Rightarrow> console \<Rightarrow> (exn + identify_media option) \<times> console" where
  "confirm_result self result' c =
     (case result' of
        JDict result \<Rightarrow>
          (case (if map_of result ''media_type'' = Some (JStr ''tv'') \<or> im_type self = Some ''tv''
                 then Some (''first_air_date'', ''name'')
                 else if map_of result ''media_type'' = Some (JStr ''movie'') \<or>
                         im_type self = Some ''movie''
                 then Some (''release_date'', ''title'')
                 else None) of
             None \<Rightarrow>
               if im_debug self then
                 (case map_of result ''media_type'' of
                    None \<Rightarrow> (Inl KeyError, c)
                  | Some m \<Rightarrow> (Inr None, say [Lit ''Unsupported media type: '', Val m] c))
               else (Inr None, c)
           | Some (date, name) \<Rightarrow>
               (case ask_response self result name date c of
                  (Inl e, c') \<Rightarrow> (Inl e, c')
                | (Inr (response, title), c') \<Rightarrow>
                    if response = ''n'' then (Inr None, c')
                    else if response = ''s'' then (Inr (Some self), say [Lit ''Skipping''] c')
                    else
                      (case map_of result ''id'' of
                         None \<Rightarrow> (Inl KeyError, c')
                       | Some i \<Rightarrow>
                           (case map_of result date of
                              None \<Rightarrow> (Inl KeyError, c')
                            | Some d \<Rightarrow>
                                (case parse_year d of
                                   Inl e \<Rightarrow> (Inl e, c')
                                 | Inr year \<Rightarrow>
                                     (case (case im_type self of
                                              Some t \<Rightarrow> Inr (Some t)
                                            | None \<Rightarrow>
                                                (case map_of result ''media_type'' of
                                                   None \<Rightarrow> Inl KeyError
                                                 | Some (JStr m) \<Rightarrow> Inr (Some m)
                                                 | Some _ \<Rightarrow> Inr None)) of
                                        Inl e \<Rightarrow> (Inl e, c')
                                      | Inr t \<Rightarrow>
                                          (Inr (Some (self\<lparr>im_identity := Some result',
                                                            im_id := i,
                                                            im_name := Some title,
                                                            im_year := Some (int year),
                                                            im_type := t\<rparr>)), c')))))))
      | _ \<Rightarrow> (Inl TypeError, c))"

fun confirm_loop ::
  "identify_media \<Rightarrow> json list \<Rightarrow> console \<Rightarrow> (exn + identify_media) \<times> console" where
  "confirm_loop self [] c = (Inr self, c)"
| "confirm_loop self (result # rest) c =
     (case confirm_result self result c of
        (Inl e, c') \<Rightarrow> (Inl e, c')
      | (Inr None, c') \<Rightarrow> confirm_loop self rest c'
      | (Inr (Some self'), c') \<Rightarrow> (Inr self', c'))"

definition confirm_identity ::
  "identify_media \<Rightarrow> console \<Rightarrow> (exn + identify_media) \<times> console" where
  "confirm_identity self c = confirm_loop self (im_potential self) c"

subsection \<open>The loop of \<^verbatim>\<open>identify\<close> (lines 287-317)\<close>

text \<open>
  One round: the title, the year and the type are asked, then the catalog is searched
  with them. The call of \<^verbatim>\<open>__evaluate_results\<close> at line 314 has the one argument
  \<^verbatim>\<open>results\<close>.
\<close>

definition manual_round ::
  "tmdb \<Rightarrow> identify_media \<Rightarrow> console \<Rightarrow> (exn + identify_media) \<times> console" where
  "manual_round catalog self c =
     (let c1 = say [Lit (newline @ ''No identity could be located the following: '' @
                         im_item self)] c;
          c2 = say [Lit ''So the following informaiton is required:''] c1
      in case py_input [Lit ''What is the title of the media? ''] c2 of
           (Inl e, c3) \<Rightarrow> (Inl e, c3)
         | (Inr title, c3) \<Rightarrow>
             (case ask_year c3 of
                (Inl e, c4) \<Rightarrow> (Inl e, c4)
              | (Inr year, c4) \<Rightarrow>
                  (case ask_type c4 of
                     (Inl e, c5) \<Rightarrow> (Inl e, c5)
                   | (Inr type, c5) \<Rightarrow>
                       (let self1 = self\<lparr>im_name := Some title, im_year := Some year,
                                         im_type := Some type\<rparr>
                        in case search_media catalog self1 title c5 of
                             (Inl e, c6) \<Rightarrow> (Inl e, c6)
                           | (Inr (results, name), c6) \<Rightarrow>
                               if results \<noteq> [] then
                                 (case call_evaluate_results self1 results [] of
                                    Inl e \<Rightarrow> (Inl e, c6)
                                  | Inr self2 \<Rightarrow>
                                      (case confirm_identity self2 c6 of
                                         (Inl e, c7) \<Rightarrow> (Inl e, c7)
                                       | (Inr self3, c7) \<Rightarrow>
                                           if identified self3
                                           then (Inr (self3\<lparr>im_results := results\<rparr>), c7)
                                           else (Inr self3, c7)))
                               else (Inr self1, c6)))))"

text \<open>
  \<^verbatim>\<open>while not self.identity\<close>. Every round reads at least the title, so the loop ends
  when the lines to be typed are finitely many: with an identity, or with an exception
  (at the latest the \<^verbatim>\<open>EOFError\<close> of \<^verbatim>\<open>input\<close>).
\<close>

function manual_entry ::
  "tmdb \<Rightarrow> identify_media \<Rightarrow> console \<Rightarrow> (exn + identify_media) \<times> console" where
  "manual_entry catalog self c =
     (if identified self then (Inr self, c)
      else (case manual_round catalog self c of
              (Inl e, c') \<Rightarrow> (Inl e, c')
            | (Inr self', c') \<Rightarrow> manual_entry catalog self' c'))"
  by pat_completeness auto
termination
proof (relation "measure (\<lambda>(catalog, self, c). length (stdin c))")
  show "wf (measure (\<lambda>(catalog :: tmdb, self :: identify_media, c). length (stdin c)))"
    by simp
next
  fix catalog :: tmdb and self self' :: identify_media and c y :: console
    and x :: "exn + identify_media"
  assume round: "(x, y) = manual_round catalog self c" and x: "x = Inr self'"
  have year: "length (stdin c4) \<le> length (stdin c3)" if "ask_year c3 = (r, c4)" for c3 c4 r
    using that
  proof (induction c3 arbitrary: r c4 rule: ask_year.induct)
    case (1 c)
    show ?case
    proof (cases "stdin c")
      case Nil
      then show ?thesis
        using "1.prems" by (subst (asm) ask_year.simps) (auto simp add: py_input_def say_def)
    next
      case (Cons line rest)
      show ?thesis
      proof (cases "year_format line")
        case True
        then show ?thesis
          using "1.prems" Cons
          by (subst (asm) ask_year.simps) (auto simp add: py_input_def say_def)
      next
        case False
        have "ask_year (say [Lit ''Year should be an integer.'']
            (say [Lit ''What is the year of release? ''] (c\<lparr>stdin := rest\<rparr>))) = (r, c4)"
          using "1.prems" Cons False
          by (subst (asm) ask_year.simps) (simp add: py_input_def)
        from "1.IH"[OF _ _ False this, of "Inr line"] Cons
        show ?thesis by (simp add: py_input_def say_def)
      qed
    qed
  qed
  have type: "length (stdin c5) \<le> length (stdin c4)" if "ask_type c4 = (r, c5)" for c4 c5 r
    using that
  proof (induction c4 arbitrary: r c5 rule: ask_type.induct)
    case (1 c)
    show ?case
    proof (cases "stdin c")
      case Nil
      then show ?thesis
        using "1.prems" by (subst (asm) ask_type.simps) (auto simp add: py_input_def say_def)
    next
      case (Cons line rest)
      show ?thesis
      proof (cases "lower (lower line) \<in> set SUPPORTED_TYPES")
        case True
        then show ?thesis
          using "1.prems" Cons
          by (subst (asm) ask_type.simps) (auto simp add: py_input_def say_def)
      next
        case False
        have "ask_type (say [Lit (''Type should be one of '' @ join_with ''/'' SUPPORTED_TYPES @ ''.'')]
            (say [Lit ''What type of media is it (tv/movie)? ''] (c\<lparr>stdin := rest\<rparr>))) = (r, c5)"
          using "1.prems" Cons False
          by (subst (asm) ask_type.simps) (simp add: py_input_def)
        from "1.IH"[OF _ _ False this, of "Inr line"] Cons
        show ?thesis by (simp add: py_input_def say_def)
      qed
    qed
  qed
  have "length (stdin y) < length (stdin c)"
    using round x
    by (auto simp add: manual_round_def Let_def call_evaluate_results_def search_media_def
        py_input_def say_def
        split: prod.splits sum.splits list.splits if_splits dest!: year type)
  then show "((catalog, self', y), (catalog, self, c))
      \<in> measure (\<lambda>(catalog, self, c). length (stdin c))"
    by simp
qed

declare manual_entry.simps [simp del]

section \<open>Sample environments\<close>

text \<open>
  A season of ten episodes, and a file system in which every call succeeds, nothing
  exists yet, the only directory is \<^verbatim>\<open>/1080p/Foo\<close> and every directory lists the one
  file \<^verbatim>\<open>foo.mkv\<close>.
\<close>

definition empty_world :: world where
  "empty_world = \<lparr>calls = [], out = [], plan = []\<rparr>"

definition ten_episodes :: pydict where
  "ten_episodes =
     [(''air_date'', JStr ''2019-01-02''),
      (''episodes'', JList (replicate 10 (JDict [(''name'', JStr ''Pilot'')])))]"

definition plain_env :: env where
  "plain_env =
     \<lparr>os_rename = (\<lambda>h a b. None),
      os_mkdir = (\<lambda>h p. None),
      os_makedirs = (\<lambda>h p. None),
      os_listdir = (\<lambda>h p. Inr [''foo.mkv'']),
      os_path_exists = (\<lambda>h p. False),
      os_path_isdir = (\<lambda>h p. p = ''/1080p/Foo''),
      os_path_isfile = (\<lambda>h p. True),
      get_tv_season = (\<lambda>i s. Inr ten_episodes),
      re_sub_special = (\<lambda>e f. Inr f)\<rparr>"

text \<open>The same file system when every \<^verbatim>\<open>os.rename\<close> is refused.\<close>

definition denied_env :: env where
  "denied_env = plain_env\<lparr>os_rename := (\<lambda>h a b. Some (OSError ''Permission denied''))\<rparr>"

text \<open>The same file system when the catalog does not know the season.\<close>

definition unknown_season_env :: env where
  "unknown_season_env =
     plain_env\<lparr>get_tv_season :=
       (\<lambda>i s. Inr [(''status_code'', JInt 404),
                    (''response'', JDict [(''status_code'', JInt 34)])])\<rparr>"

definition renamer :: rename_media where
  "renamer = \<lparr>debug = False, validate = False\<rparr>"

definition validator :: rename_media where
  "validator = \<lparr>debug = False, validate = True\<rparr>"

text \<open>
  A catalog that answers every search with one record, and an object for the file
  \<^verbatim>\<open>/m/Alien.1979.mkv\<close> that has no identity yet.
\<close>

definition alien :: json where
  "alien =
     JDict [(''id'', JInt 348), (''media_type'', JStr ''movie''), (''title'', JStr ''Alien''),
            (''release_date'', JStr ''1979-05-25'')]"

definition alien_answer :: pydict where
  "alien_answer = [(''page'', JInt 1), (''results'', JList [alien])]"

definition alien_catalog :: tmdb where
  "alien_catalog =
     \<lparr>search_tv = (\<lambda>name year. Inr alien_answer),
      search_movies = (\<lambda>name year. Inr alien_answer),
      search_multi = (\<lambda>name. Inr alien_answer)\<rparr>"

definition unidentified :: identify_media where
  "unidentified =
     \<lparr>im_item = ''/m/Alien.1979.mkv'', im_id = JNull, im_name = None, im_year = None,
      im_type = None, im_identity = None, im_results = [], im_potential = [],
      im_debug = False\<rparr>"

text \<open>
  The same file system when the only directory is \<^verbatim>\<open>/tv/Show\<close> and every directory
  lists the one file \<^verbatim>\<open>Show.S01E01.mkv\<close>.
\<close>

definition show_dir_env :: env where
  "show_dir_env =
     plain_env\<lparr>os_path_isdir := (\<lambda>h p. p = ''/tv/Show''),
                os_listdir := (\<lambda>h p. Inr [''Show.S01E01.mkv''])\<rparr>"

section \<open>Theorems\<close>

subsection \<open>Facts about the substitution\<close>

lemma concat_map_concat_map:
  "concat (map f (concat (map g xs))) = concat (map (\<lambda>x. concat (map f (g x))) xs)"
  by (induction xs) simp_all

lemma replace_char_Nil: "replace_char c new [] = []"
  by (simp add: replace_char_def)

lemma replace_char_Cons:
  "replace_char c new (x # xs) = (if x = c then new else [x]) @ replace_char c new xs"
  by (simp add: replace_char_def)

lemma replace_char_fuse:
  "replace_char c new (concat (map g xs)) = concat (map (\<lambda>x. replace_char c new (g x)) xs)"
  by (simp add: replace_char_def concat_map_concat_map)

lemma replace_char_as_map:
  "replace_char c new s = concat (map (\<lambda>x. replace_char c new [x]) s)"
  by (simp add: replace_char_def)

text \<open>The name when the loop reaches \<^verbatim>\<open>?\<close>, character by character.\<close>

lemma name_before_question_eq:
  "name_before_question name =
     concat (map (\<lambda>c. if c \<in> set dropped_characters - {CHR ''*''} then ''''
                       else if c = CHR '':'' then '' -'' else [c]) name)"
proof -
  have "name_before_question name =
      concat (map (\<lambda>x. replace_char (CHR ''|'') '''' (replace_char (CHR 0x5C) ''''
        (replace_char (CHR ''/'') '''' (replace_char (CHR 0x22) ''''
        (replace_char (CHR '':'') '' -'' (replace_char (CHR ''>'') ''''
        (replace_char (CHR ''<'') '''' [x]))))))) name)"
    unfolding name_before_question_def invalid_characters_def
    apply simp
    apply (subst replace_char_as_map[of "CHR ''<''"])
    apply (simp only: replace_char_fuse)
    done
  also have "\<dots> = concat (map (\<lambda>c. if c \<in> set dropped_characters - {CHR ''*''} then ''''
                       else if c = CHR '':'' then '' -'' else [c]) name)"
    by (rule arg_cong[where f=concat], rule map_cong[OF refl])
       (simp add: replace_char_Nil replace_char_Cons dropped_characters_def)
  finally show ?thesis .
qed

text \<open>The whole loop is one pass that maps each character of the input on its own.\<close>

lemma substitute_all:
  "substitute invalid_characters name = concat (map (char_image (question_image name)) name)"
proof -
  have q: "question_image name = '''' \<or> question_image name = ''.''"
    by (simp add: question_image_def)
  have "substitute invalid_characters name =
      replace_char (CHR ''*'') ''''
        (replace_char (CHR ''?'') (question_image name) (name_before_question name))"
    by (simp add: invalid_characters_def question_image_def name_before_question_def)
  also have "\<dots> = concat (map (char_image (question_image name)) name)"
    unfolding name_before_question_eq
    apply (simp only: replace_char_fuse)
    apply (rule arg_cong[where f=concat])
    apply (rule map_cong[OF refl])
    using q
    apply (auto simp add: replace_char_Nil replace_char_Cons dropped_characters_def
        char_image_def)
    done
  finally show ?thesis .
qed

lemma set_substitute:
  assumes "c \<in> set mapped_characters"
  shows "c \<notin> set (substitute invalid_characters name)"
proof -
  have q: "question_image name = '''' \<or> question_image name = ''.''"
    by (simp add: question_image_def)
  show ?thesis
    unfolding substitute_all using q assms
    by (auto simp add: char_image_def mapped_characters_def dropped_characters_def
        split: if_splits)
qed

lemma substitute_clean:
  assumes "\<forall>c\<in>set mapped_characters. c \<notin> set s"
  shows "substitute invalid_characters s = s"
proof -
  have "concat (map (char_image q) s) = s" for q
    using assms
    by (induction s)
       (auto simp add: char_image_def mapped_characters_def dropped_characters_def)
  then show ?thesis by (simp add: substitute_all)
qed

lemma reserved_dot: "s \<in> set invalid_filenames \<Longrightarrow> s @ ''.'' \<notin> set invalid_filenames"
  by (auto simp add: invalid_filenames_def)

lemma set_remove_invalid_characters:
  assumes "c \<in> set mapped_characters"
  shows "c \<notin> set (remove_invalid_characters name)"
  using set_substitute[OF assms, of name] assms
  by (auto simp add: remove_invalid_characters_def Let_def mapped_characters_def
      dropped_characters_def)

lemma remove_invalid_characters_not_reserved:
  "remove_invalid_characters s \<notin> set invalid_filenames"
  using reserved_dot[of "substitute invalid_characters s"]
  by (simp add: remove_invalid_characters_def Let_def)

subsection \<open>Claims about \<^verbatim>\<open>remove_invalid_characters\<close>\<close>

text \<open>
  C1, as stated: every \<^verbatim>\<open>?\<close> is removed and none is replaced by another character.
  The dictionary maps \<^verbatim>\<open>?\<close> to a dot, and the loop uses that entry whenever the name
  has no question mark directly after a dot: the question mark of \<^verbatim>\<open>What?\<close> becomes
  a dot.
\<close>

theorem question_mark_replaced_counterexample:
  "remove_invalid_characters ''What?'' = ''What.'' \<and>
   remove_invalid_characters ''What?'' \<noteq> ''What''"
  by (simp add: remove_invalid_characters_def invalid_characters_def invalid_filenames_def
      replace_char_def)

text \<open>
  C1, amended: no \<^verbatim>\<open>?\<close> survives in the output. When the name, after the substitutions
  made for the keys before \<^verbatim>\<open>?\<close>, has a question mark directly after a run of dots,
  every \<^verbatim>\<open>?\<close> of the name is deleted; otherwise every \<^verbatim>\<open>?\<close> is replaced by a dot.
\<close>

theorem question_mark_never_survives:
  "CHR ''?'' \<notin> set (remove_invalid_characters name) \<and>
   substitute invalid_characters name =
     concat (map (char_image
       (if search_dots_question (name_before_question name) then '''' else ''.'')) name)"
proof -
  have "CHR ''?'' \<in> set mapped_characters"
    by (simp add: mapped_characters_def)
  then have "CHR ''?'' \<notin> set (remove_invalid_characters name)"
    by (rule set_remove_invalid_characters)
  moreover have "substitute invalid_characters name =
     concat (map (char_image
       (if search_dots_question (name_before_question name) then '''' else ''.'')) name)"
    using substitute_all[of name] by (simp add: question_image_def)
  ultimately show ?thesis by simp
qed

theorem question_mark_never_survives_witness:
  "CHR ''?'' \<notin> set (remove_invalid_characters ''Who...? What?'') \<and>
   substitute invalid_characters ''Who...? What?'' = ''Who... What''"
  using question_mark_never_survives [of "''Who...? What?''"]
  by (simp add: name_before_question_def invalid_characters_def replace_char_def
      char_image_def dropped_characters_def)

text \<open>
  C7: the output has none of \<^verbatim>\<open>< > " / \ | *\<close> and no colon; the substitution drops
  each of the seven characters and writes \<^verbatim>\<open> -\<close> for each colon, leaving every other
  character except \<^verbatim>\<open>?\<close> as it is; a dot is appended exactly when the substituted name
  is one of the reserved device names. The function is total: it returns a string for
  every string.
\<close>

theorem remove_invalid_characters_mapping:
  "(\<forall>c \<in> set (CHR '':'' # dropped_characters). c \<notin> set (remove_invalid_characters name)) \<and>
   substitute invalid_characters name =
     concat (map (char_image (question_image name)) name) \<and>
   remove_invalid_characters name =
     (if substitute invalid_characters name \<in> set invalid_filenames
      then substitute invalid_characters name @ ''.''
      else substitute invalid_characters name)"
proof -
  have "\<forall>c \<in> set (CHR '':'' # dropped_characters). c \<notin> set (remove_invalid_characters name)"
    using set_remove_invalid_characters[of _ name]
    by (auto simp add: mapped_characters_def)
  then show ?thesis
    by (simp add: substitute_all remove_invalid_characters_def Let_def)
qed

theorem remove_invalid_characters_mapping_witness:
  "remove_invalid_characters ''<C>O:N*'' = ''CO -N'' \<and>
   substitute invalid_characters ''C|ON'' = ''CON'' \<and>
   remove_invalid_characters ''C|ON'' = ''CON.'' \<and>
   remove_invalid_characters ''Alien: Covenant'' = ''Alien - Covenant''"
proof -
  have a: "concat (map (char_image (question_image ''<C>O:N*'')) ''<C>O:N*'') = ''CO -N''"
    by (simp add: char_image_def dropped_characters_def)
  have b: "concat (map (char_image (question_image ''C|ON'')) ''C|ON'') = ''CON''"
    by (simp add: char_image_def dropped_characters_def)
  have c: "concat (map (char_image (question_image ''Alien: Covenant'')) ''Alien: Covenant'')
      = ''Alien - Covenant''"
    by (simp add: char_image_def dropped_characters_def)
  show ?thesis
    using remove_invalid_characters_mapping [of "''<C>O:N*''"]
      remove_invalid_characters_mapping [of "''C|ON''"]
      remove_invalid_characters_mapping [of "''Alien: Covenant''"]
    unfolding a b c
    by (simp add: invalid_filenames_def)
qed

text \<open>
  C10: \<^verbatim>\<open>remove_invalid_characters\<close> is idempotent; its output has none of the mapped
  characters and is never one of the reserved device names.
\<close>

theorem remove_invalid_characters_idempotent:
  "remove_invalid_characters (remove_invalid_characters s) = remove_invalid_characters s \<and>
   (\<forall>c \<in> set mapped_characters. c \<notin> set (remove_invalid_characters s)) \<and>
   remove_invalid_characters s \<notin> set invalid_filenames"
proof -
  have clean: "\<forall>c\<in>set mapped_characters. c \<notin> set (remove_invalid_characters s)"
    using set_remove_invalid_characters[of _ s] by blast
  have nr: "remove_invalid_characters s \<notin> set invalid_filenames"
    by (rule remove_invalid_characters_not_reserved)
  have "remove_invalid_characters (remove_invalid_characters s) = remove_invalid_characters s"
    using substitute_clean[OF clean] nr
    by (simp add: remove_invalid_characters_def[of "remove_invalid_characters s"] Let_def)
  with clean nr show ?thesis by simp
qed

theorem remove_invalid_characters_idempotent_witness:
  "remove_invalid_characters (remove_invalid_characters ''N<UL'') = ''NUL.'' \<and>
   remove_invalid_characters ''N<UL'' = ''NUL.''"
proof -
  have "remove_invalid_characters ''N<UL'' = ''NUL.''"
    by (simp add: remove_invalid_characters_def invalid_characters_def invalid_filenames_def
      replace_char_def)
  then show ?thesis
    using remove_invalid_characters_idempotent [of "''N<UL''"] by simp
qed

subsection \<open>Facts about \<^verbatim>\<open>__evaluate_results\<close>\<close>

lemma survives_dict:
  "survives (JDict d) =
     (\<exists>mt. map_of d ''media_type'' = Some mt \<and> mt \<in> set (map JStr SUPPORTED_TYPES) \<and>
        \<not> (empty_at d ''name'' \<or> empty_at d ''title'') \<and>
        \<not> (empty_at d ''release_date'' \<or> empty_at d ''first_air_date''))"
  by (cases "map_of d ''media_type''") (simp_all add: survives_def)

text \<open>One round of the loop, in terms of the three filters.\<close>

lemma evaluate_result_dict:
  "evaluate_result ofn (JDict d) acc =
     (case map_of d ''media_type'' of
        None \<Rightarrow> Inl KeyError
      | Some mt \<Rightarrow>
          if \<not> survives (JDict d) then Inr acc
          else (case parse_year (result_date d) of
                  Inl e \<Rightarrow> Inl e
                | Inr year \<Rightarrow> if year_in_name ofn (JDict d) then Inr (JDict d # acc)
                              else Inr (acc @ [JDict d])))"
proof (cases "map_of d ''media_type''")
  case None
  then show ?thesis by (simp add: evaluate_result_def)
next
  case (Some mt)
  show ?thesis
  proof (cases "survives (JDict d)")
    case True
    then show ?thesis
      using Some
      by (cases "parse_year (result_date d)")
         (simp_all add: evaluate_result_def survives_dict year_in_name_def)
  next
    case False
    then show ?thesis
      using Some by (auto simp add: evaluate_result_def survives_dict)
  qed
qed

lemma parse_year_has_date:
  assumes "parse_year (result_date d) = Inr y"
  shows "has_date (JDict d)"
proof (rule ccontr)
  assume "\<not> has_date (JDict d)"
  then have "result_date d = JNull"
    by (simp add: has_date_def result_date_def)
  with assms show False by (simp add: parse_year_def)
qed

lemma evaluate_result_Inr:
  assumes "evaluate_result ofn r acc = Inr acc'"
  shows "acc' = (if survives r then (if year_in_name ofn r then r # acc else acc @ [r]) else acc)
     \<and> (survives r \<longrightarrow> has_date r)"
proof (cases r)
  case (JDict d)
  show ?thesis
  proof (cases "map_of d ''media_type''")
    case None
    then show ?thesis using assms JDict by (simp add: evaluate_result_dict)
  next
    case (Some mt)
    show ?thesis
    proof (cases "parse_year (result_date d)")
      case (Inl e)
      then show ?thesis using assms JDict Some
        by (simp add: evaluate_result_dict split: if_splits)
    next
      case (Inr y)
      then show ?thesis using assms JDict Some parse_year_has_date[OF Inr]
        by (simp add: evaluate_result_dict split: if_splits)
    qed
  qed
qed (use assms in \<open>simp_all add: evaluate_result_def\<close>)

text \<open>
  The loop, started with the list \<open>acc\<close>: matching survivors go to the front one by
  one, the others to the back.
\<close>

lemma evaluate_loop_ranking:
  "evaluate_loop ofn rs acc = Inr p \<Longrightarrow>
     p = rev (filter (year_in_name ofn) (filter survives rs)) @ acc @
         filter (\<lambda>r. \<not> year_in_name ofn r) (filter survives rs)"
proof (induction rs arbitrary: acc)
  case Nil
  then show ?case by simp
next
  case (Cons r rs)
  from Cons.prems obtain acc' where s: "evaluate_result ofn r acc = Inr acc'"
    and l: "evaluate_loop ofn rs acc' = Inr p"
    by (cases "evaluate_result ofn r acc") simp_all
  show ?case
    using Cons.IH[OF l] evaluate_result_Inr[OF s] by simp
qed

lemma evaluate_loop_members:
  "evaluate_loop ofn rs acc = Inr p \<Longrightarrow> r \<in> set p \<Longrightarrow>
     r \<in> set acc \<or> (r \<in> set rs \<and> survives r \<and> has_date r)"
proof (induction rs arbitrary: acc)
  case Nil
  then show ?case by simp
next
  case (Cons x rs)
  from Cons.prems obtain acc' where s: "evaluate_result ofn x acc = Inr acc'"
    and l: "evaluate_loop ofn rs acc' = Inr p"
    by (cases "evaluate_result ofn x acc") simp_all
  from Cons.IH[OF l Cons.prems(2)] evaluate_result_Inr[OF s]
  show ?case by (auto split: if_splits)
qed

lemma evaluate_result_total:
  assumes "well_formed_result r"
  shows "\<exists>acc'. evaluate_result ofn r acc = Inr acc'"
proof (cases r)
  case (JDict d)
  show ?thesis
  proof (cases "map_of d ''media_type''")
    case None
    then show ?thesis using assms JDict by (simp add: well_formed_result_def)
  next
    case (Some mt)
    show ?thesis
    proof (cases "parse_year (result_date d)")
      case (Inl e)
      then show ?thesis using assms JDict Some
        by (simp add: evaluate_result_dict well_formed_result_def split: if_splits)
    next
      case (Inr y)
      then show ?thesis using assms JDict Some
        by (simp add: evaluate_result_dict split: if_splits)
    qed
  qed
qed (use assms in \<open>simp_all add: well_formed_result_def\<close>)

lemma evaluate_loop_total:
  "\<forall>r\<in>set rs. well_formed_result r \<Longrightarrow> \<exists>p. evaluate_loop ofn rs acc = Inr p"
proof (induction rs arbitrary: acc)
  case Nil
  then show ?case by simp
next
  case (Cons r rs)
  then obtain acc' where "evaluate_result ofn r acc = Inr acc'"
    using evaluate_result_total[of r ofn acc] by auto
  then show ?case using Cons by simp
qed

lemma evaluate_results_list:
  "map_of results ''results'' = Some (JList rs) \<Longrightarrow>
     evaluate_results potential results ofn = evaluate_loop ofn rs []"
  by (simp add: evaluate_results_def)

text \<open>Evaluating the sample records.\<close>

lemma string_of_nat_2019: "string_of_nat 2019 = ''2019''"
  by code_simp

lemma string_of_nat_2001: "string_of_nat 2001 = ''2001''"
  by code_simp

lemma parse_year_2019_03_01: "parse_year (JStr ''2019-03-01'') = Inr 2019"
  by code_simp

lemma parse_year_2019_07_09: "parse_year (JStr ''2019-07-09'') = Inr 2019"
  by code_simp

lemma parse_year_2001_07_09: "parse_year (JStr ''2001-07-09'') = Inr 2001"
  by code_simp

lemma contains_2019: "contains ''2019'' ''Show.2019.S01''"
  by code_simp

lemma contains_2001: "\<not> contains ''2001'' ''Show.2019.S01''"
  by code_simp

lemma evaluate_movie_2019:
  "evaluate_result ''Show.2019.S01'' movie_2019 acc = Inr (movie_2019 # acc)"
  unfolding movie_2019_def evaluate_result_dict
  by (simp add: survives_dict SUPPORTED_TYPES_def empty_at_def filled_at_def result_date_def
      year_in_name_def parse_year_2019_03_01 string_of_nat_2019 contains_2019)

lemma evaluate_show_2019:
  "evaluate_result ''Show.2019.S01'' show_2019 acc = Inr (show_2019 # acc)"
  unfolding show_2019_def evaluate_result_dict
  by (simp add: survives_dict SUPPORTED_TYPES_def empty_at_def filled_at_def result_date_def
      year_in_name_def parse_year_2019_07_09 string_of_nat_2019 contains_2019)

lemma evaluate_show_2001:
  "evaluate_result ''Show.2019.S01'' show_2001 acc = Inr (acc @ [show_2001])"
  unfolding show_2001_def evaluate_result_dict
  by (simp add: survives_dict SUPPORTED_TYPES_def empty_at_def filled_at_def result_date_def
      year_in_name_def parse_year_2001_07_09 string_of_nat_2001 contains_2001)

lemma evaluate_person_record:
  "evaluate_result ofn person_record acc = Inr acc"
  unfolding person_record_def evaluate_result_dict
  by (simp add: survives_dict SUPPORTED_TYPES_def)

lemma evaluate_unnamed_show:
  "evaluate_result ofn unnamed_show acc = Inr acc"
  unfolding unnamed_show_def evaluate_result_dict
  by (simp add: survives_dict SUPPORTED_TYPES_def empty_at_def)

lemma evaluate_undated_movie:
  "evaluate_result ofn undated_movie acc = Inr acc"
  unfolding undated_movie_def evaluate_result_dict
  by (simp add: survives_dict SUPPORTED_TYPES_def empty_at_def)

lemma survives_samples:
  "survives movie_2019" "survives show_2019" "survives show_2001"
  "\<not> survives person_record" "\<not> survives unnamed_show" "\<not> survives undated_movie"
  by (simp_all add: movie_2019_def show_2019_def show_2001_def person_record_def
      unnamed_show_def undated_movie_def survives_dict SUPPORTED_TYPES_def empty_at_def)

lemma year_in_name_samples:
  "year_in_name ''Show.2019.S01'' movie_2019" "year_in_name ''Show.2019.S01'' show_2019"
  "\<not> year_in_name ''Show.2019.S01'' show_2001"
  by (simp_all add: movie_2019_def show_2019_def show_2001_def year_in_name_def
      result_date_def filled_at_def parse_year_2019_03_01 parse_year_2019_07_09
      parse_year_2001_07_09 string_of_nat_2019 string_of_nat_2001 contains_2019 contains_2001)

lemma well_formed_samples:
  "well_formed_result movie_2019" "well_formed_result show_2019" "well_formed_result show_2001"
  "well_formed_result person_record" "well_formed_result unnamed_show"
  "well_formed_result undated_movie"
  using survives_samples
  by (simp_all add: well_formed_result_def)
     (simp_all add: movie_2019_def show_2019_def show_2001_def person_record_def
      unnamed_show_def undated_movie_def result_date_def filled_at_def parse_year_2019_03_01
      parse_year_2019_07_09 parse_year_2001_07_09)

lemma has_date_samples:
  "has_date movie_2019" "has_date show_2019" "has_date show_2001"
  by (simp_all add: movie_2019_def show_2019_def show_2001_def has_date_def filled_at_def)

subsection \<open>Claims about \<^verbatim>\<open>__evaluate_results\<close>\<close>

text \<open>
  C2, as stated: the survivors whose year occurs in the folder name come first, and
  both groups keep the catalog order. The loop puts each matching record at index 0
  (\<^verbatim>\<open>self.potential.insert(0, result)\<close>), so two matching records come out in the
  opposite order: for the catalog order movie, show of 2001, show of 2019 and the folder
  name \<^verbatim>\<open>Show.2019.S01\<close> the stable ranking starts with the movie, the code's list with
  the show of 2019.
\<close>

theorem stable_ranking_counterexample:
  "evaluate_results [] [(''results'', JList [movie_2019, show_2001, show_2019])] ''Show.2019.S01''
     = Inr [show_2019, movie_2019, show_2001] \<and>
   stable_ranking ''Show.2019.S01'' [movie_2019, show_2001, show_2019]
     = [movie_2019, show_2019, show_2001] \<and>
   movie_2019 \<noteq> show_2019"
  by (simp add: evaluate_results_def evaluate_movie_2019 evaluate_show_2019
      evaluate_show_2001 stable_ranking_def survives_samples year_in_name_samples)
     (simp add: movie_2019_def show_2019_def)

text \<open>
  C2, amended: when no record makes the evaluation raise, the candidate list is the
  surviving records whose parsed year occurs in the original folder name, in reverse
  catalog order, followed by the other survivors in catalog order. The list that
  \<^verbatim>\<open>self.potential\<close> held before does not matter.
\<close>

theorem evaluate_results_ranking:
  assumes "map_of results ''results'' = Some (JList rs)"
    and "\<forall>r\<in>set rs. well_formed_result r"
  shows "evaluate_results potential results original_folder_name =
     Inr (rev (filter (year_in_name original_folder_name) (filter survives rs)) @
          filter (\<lambda>r. \<not> year_in_name original_folder_name r) (filter survives rs))"
proof -
  obtain p where p: "evaluate_loop original_folder_name rs [] = Inr p"
    using evaluate_loop_total[OF assms(2)] by blast
  from evaluate_loop_ranking[OF p] p show ?thesis
    by (simp add: evaluate_results_list[OF assms(1)])
qed

theorem evaluate_results_ranking_witness:
  "evaluate_results [person_record]
     [(''results'', JList [movie_2019, show_2001, person_record, show_2019])] ''Show.2019.S01''
     = Inr [show_2019, movie_2019, show_2001]"
proof -
  have a: "map_of [(''results'', JList [movie_2019, show_2001, person_record, show_2019])]
      ''results'' = Some (JList [movie_2019, show_2001, person_record, show_2019])"
    by simp
  have b: "\<forall>r\<in>set [movie_2019, show_2001, person_record, show_2019]. well_formed_result r"
    by (simp add: well_formed_samples)
  show ?thesis
    using evaluate_results_ranking [OF a b, of "[person_record]" "''Show.2019.S01''"]
    by (simp add: survives_samples year_in_name_samples)
qed

text \<open>
  C8, as stated: evaluation never raises, whatever the shape of a record, and a record
  without a name or title field is never added. A record without \<^verbatim>\<open>media_type\<close> (the
  typed searches return such records) raises \<^verbatim>\<open>KeyError\<close>, a record that passes the
  filters and has no date raises \<^verbatim>\<open>TypeError\<close>, and a movie record with a date and no
  \<^verbatim>\<open>title\<close> key at all is added.
\<close>

theorem evaluate_results_counterexample:
  "evaluate_results [] [(''results'', JList [typed_search_record])] ''Show.2019.S01''
     = Inl KeyError \<and>
   evaluate_results [] [(''results'', JList [JDict [(''media_type'', JStr ''movie'')]])]
     ''Show.2019.S01'' = Inl TypeError \<and>
   evaluate_results [] [(''results'', JList [titleless_movie])] ''Show.2019.S01''
     = Inr [titleless_movie] \<and>
   map_of [(''media_type'', JStr ''movie''), (''id'', JInt 18),
           (''release_date'', JStr ''2019-03-01'')] ''title'' = None"
  by (simp add: evaluate_results_def typed_search_record_def titleless_movie_def
      evaluate_result_dict survives_dict SUPPORTED_TYPES_def empty_at_def filled_at_def
      result_date_def year_in_name_def parse_year_2019_03_01 string_of_nat_2019 contains_2019)
     (simp add: parse_year_def)

text \<open>
  C8, amended: every record in the candidate list is a record of the result set whose
  media type is movie or tv, whose \<^verbatim>\<open>name\<close> and \<^verbatim>\<open>title\<close> fields are not present and
  empty, whose date fields are not present and empty, and which has a date. The
  evaluation raises nothing when every record is a dictionary with a \<^verbatim>\<open>media_type\<close>
  and every record that passes the filters has a date that \<^verbatim>\<open>strptime\<close> accepts.
\<close>

theorem evaluate_results_filter:
  assumes "map_of results ''results'' = Some (JList rs)"
  shows "(\<forall>candidates. evaluate_results potential results original_folder_name = Inr candidates
            \<longrightarrow> (\<forall>r\<in>set candidates. r \<in> set rs \<and> survives r \<and> has_date r)) \<and>
         ((\<forall>r\<in>set rs. well_formed_result r) \<longrightarrow>
            (\<exists>candidates. evaluate_results potential results original_folder_name
               = Inr candidates))"
proof -
  have "r \<in> set rs \<and> survives r \<and> has_date r"
    if "evaluate_results potential results original_folder_name = Inr candidates"
      and "r \<in> set candidates" for candidates r
    using evaluate_loop_members[of original_folder_name rs "[]" candidates r] that
    by (simp add: evaluate_results_list[OF assms])
  moreover have "\<exists>candidates. evaluate_results potential results original_folder_name
               = Inr candidates" if "\<forall>r\<in>set rs. well_formed_result r"
    using evaluate_loop_total[OF that] by (simp add: evaluate_results_list[OF assms])
  ultimately show ?thesis by blast
qed

theorem evaluate_results_filter_witness:
  "evaluate_results []
     [(''results'', JList [person_record, unnamed_show, undated_movie, show_2001])]
     ''Show.2019.S01'' = Inr [show_2001] \<and>
   survives show_2001 \<and> has_date show_2001 \<and>
   \<not> survives person_record \<and> \<not> survives unnamed_show \<and> \<not> survives undated_movie"
proof -
  have a: "map_of [(''results'', JList [person_record, unnamed_show, undated_movie, show_2001])]
      ''results'' = Some (JList [person_record, unnamed_show, undated_movie, show_2001])"
    by simp
  have b: "evaluate_results []
     [(''results'', JList [person_record, unnamed_show, undated_movie, show_2001])]
     ''Show.2019.S01'' = Inr [show_2001]"
    by (simp add: evaluate_results_def evaluate_person_record evaluate_unnamed_show
        evaluate_undated_movie evaluate_show_2001)
  show ?thesis
    using evaluate_results_filter [OF a, of "[]" "''Show.2019.S01''"] b
    by (simp add: survives_samples)
qed

subsection \<open>Facts about \<^verbatim>\<open>RenameMedia\<close>\<close>


lemma calls_print [simp]: "calls (print s w) = calls w"
  by (simp add: print_def)

lemma plan_print [simp]: "plan (print s w) = plan w"
  by (simp add: print_def)

lemma out_print [simp]: "out (print s w) = out w @ [Text s]"
  by (simp add: print_def)

lemma plan_rename [simp]: "plan (snd (rename env a b w)) = plan w"
  by (simp add: rename_def Let_def split: option.splits exn.splits)

lemma calls_rename [simp]:
  "calls (snd (rename env a b w)) = calls w @ [Rename a (remove_unicode b)]"
  by (simp add: rename_def Let_def split: option.splits exn.splits)

lemma rename_returns:
  "fst (rename env a b w) =
     (case os_rename env (calls w) a (remove_unicode b) of
        None \<Rightarrow> Inr ()
      | Some e \<Rightarrow> if is_Exception e then Inr () else Inl e)"
  by (simp add: rename_def Let_def split: option.splits exn.splits)

lemma plan_makedirs [simp]: "plan (snd (makedirs env p w)) = plan w"
  by (simp add: makedirs_def split: option.splits)

lemma calls_makedirs [simp]: "calls (snd (makedirs env p w)) = calls w @ [Makedirs p]"
  by (simp add: makedirs_def split: option.splits)

lemma plan_mkdir [simp]: "plan (snd (mkdir env p w)) = plan w"
  by (simp add: mkdir_def split: option.splits)

lemma calls_mkdir [simp]: "calls (snd (mkdir env p w)) = calls w @ [Mkdir p]"
  by (simp add: mkdir_def split: option.splits)

lemma fst_mkdir: "fst (mkdir env p w) = (case os_mkdir env (calls w) p of None \<Rightarrow> Inr () | Some e \<Rightarrow> Inl e)"
  by (simp add: mkdir_def split: option.splits)

lemma m1: "remove_invalid_characters ''Movie Title'' = ''Movie Title''" by code_simp
lemma m2: "os_path_dirname ''Movie.Title.2020.1080p.mkv'' = ''''" by code_simp
lemma m3: "os_path_basename ''Movie.Title.2020.1080p.mkv'' = ''Movie.Title.2020.1080p.mkv''" by code_simp
lemma m4: "last_piece (CHR ''.'') ''Movie.Title.2020.1080p.mkv'' = ''mkv''" by code_simp
lemma m5: "get_resolution ''Movie.Title.2020.1080p.mkv'' '''' = '' [1080p]''" by code_simp
lemma m6: "string_of_int 2020 = ''2020''" by code_simp
lemma m7: "os_path_join '''' ''Movie Title (2020)'' = ''Movie Title (2020)''" by code_simp
lemma m8: "os_path_join ''Movie Title (2020)'' ''Movie Title (2020) [1080p].mkv'' = ''Movie Title (2020)/Movie Title (2020) [1080p].mkv''" by code_simp
lemma m9: "remove_unicode ''Movie Title (2020)/Movie Title (2020) [1080p].mkv'' = ''Movie Title (2020)/Movie Title (2020) [1080p].mkv''" by code_simp

lemma plan_move_episode [simp]:
  "plan (snd (move_episode env self sf sfn fo fn ext sfon nf w)) = plan w"
  by (simp add: move_episode_def Let_def split_beta split: sum.splits)

lemma move_episode_validate:
  assumes "validate self"
  shows "fst (move_episode env self sf sfn fo fn ext sfon nf w) = Inr ()"
    and "calls (snd (move_episode env self sf sfn fo fn ext sfon nf w)) = calls w"
  using assms by (simp_all add: move_episode_def Let_def split_beta)

lemma rename_episode_validate:
  assumes "validate self"
  shows "calls (snd (rename_episode env self sf sfn fo fn ext res si s e w)) = calls w"
  using assms
  by (simp add: rename_episode_def Let_def move_episode_validate split: sum.splits)

lemma show_file_validate:
  assumes "validate self"
  shows "calls (snd (show_file env self i sf sfn fo file w)) = calls w"
  using assms
  by (simp add: show_file_def Let_def rename_episode_validate print_def
      split: sum.splits option.splits prod.splits)

lemma for_each_calls:
  assumes "\<And>x w. calls (snd (body x w)) = calls w"
  shows "calls (snd (for_each body xs w)) = calls w"
proof (induction xs arbitrary: w)
  case Nil
  then show ?case by simp
next
  case (Cons x xs)
  show ?case
  proof (cases "body x w")
    case (Pair r w')
    then have "calls w' = calls w" using assms[of x w] by simp
    then show ?thesis using Pair Cons.IH[of w'] by (cases r) simp_all
  qed
qed

lemma rename_base_folder_validate:
  assumes "validate self"
  shows "fst (rename_base_folder env self folder name year w) =
           Inr (folder, name @ '' ('' @ string_of_int year @ '')'')"
    and "calls (snd (rename_base_folder env self folder name year w)) = calls w"
    and "plan (snd (rename_base_folder env self folder name year w)) = plan w"
  using assms by (simp_all add: rename_base_folder_def Let_def split_beta)

lemma show_tv_validate:
  assumes "validate self"
  shows "calls (snd (show_tv env self item i name year w)) = calls w"
proof -
  have fe: "calls (snd (for_each (show_file env self i sf sfn fo) files w')) = calls w'"
    for sf sfn fo files w'
    by (rule for_each_calls) (rule show_file_validate[OF assms])
  show ?thesis
    using assms
    by (simp add: show_tv_def Let_def split_beta fe rename_base_folder_validate
        place_file_def del: for_each.simps split: sum.splits)
qed

lemma movie_file_validate:
  assumes "validate self"
  shows "calls (snd (movie_file env self folder mfn file w)) = calls w"
  using assms
  by (simp add: movie_file_def Let_def split: sum.splits)

lemma movie_validate:
  assumes "validate self"
  shows "calls (snd (movie env self item name year w)) = calls w"
proof -
  have fe: "calls (snd (for_each (movie_file env self fo mfn) files w')) = calls w'"
    for fo mfn files w'
    by (rule for_each_calls) (rule movie_file_validate[OF assms])
  show ?thesis
    using assms
    by (simp add: movie_def Let_def split_beta fe rename_base_folder_validate
        split: sum.splits)
qed

lemma plan_rename_base_folder [simp]:
  "plan (snd (rename_base_folder env self folder name year w)) = plan w"
  by (simp add: rename_base_folder_def Let_def split_beta split: sum.splits)

lemma rename_episode_plan_rel:
  assumes "validate selfV" and "plan wV = plan wN"
    and "fst (rename_episode env selfN sf sfn fo fn ext res si s e wN) = Inr ()"
  shows "fst (rename_episode env selfV sf' sfn fo' fn ext res si s e wV) = Inr () \<and>
         plan (snd (rename_episode env selfV sf' sfn fo' fn ext res si s e wV)) =
         plan (snd (rename_episode env selfN sf sfn fo fn ext res si s e wN))"
  using assms
  by (auto simp add: rename_episode_def Let_def move_episode_validate
      split: sum.splits if_splits)

lemma show_file_invalid_extension:
  "last_piece (CHR ''.'') file \<in> set INVALID_EXTENSIONS \<Longrightarrow>
     show_file env self i sf sfn fo file w = (Inr (), w)"
  by (simp add: show_file_def Let_def)

lemma show_file_sub_raises:
  "last_piece (CHR ''.'') file \<notin> set INVALID_EXTENSIONS \<Longrightarrow>
   remove_extension env (last_piece (CHR ''.'') file) file = Inl ex \<Longrightarrow>
     show_file env self i sf sfn fo file w = (Inl ex, w)"
  by (simp add: show_file_def Let_def)

lemma show_file_no_episode:
  "last_piece (CHR ''.'') file \<notin> set INVALID_EXTENSIONS \<Longrightarrow>
   remove_extension env (last_piece (CHR ''.'') file) file = Inr fn \<Longrightarrow>
   search_season_episode fn = None \<Longrightarrow>
     show_file env self i sf sfn fo file w = (Inr (), w)"
  by (simp add: show_file_def Let_def)

lemma show_file_season_raises:
  "last_piece (CHR ''.'') file \<notin> set INVALID_EXTENSIONS \<Longrightarrow>
   remove_extension env (last_piece (CHR ''.'') file) file = Inr fn \<Longrightarrow>
   search_season_episode fn = Some (s, e) \<Longrightarrow>
   get_tv_season env i s = Inl ex \<Longrightarrow>
     show_file env self i sf sfn fo file w = (Inl ex, w)"
  by (simp add: show_file_def Let_def)

lemma show_file_season:
  "last_piece (CHR ''.'') file \<notin> set INVALID_EXTENSIONS \<Longrightarrow>
   remove_extension env (last_piece (CHR ''.'') file) file = Inr fn \<Longrightarrow>
   search_season_episode fn = Some (s, e) \<Longrightarrow>
   get_tv_season env i s = Inr si \<Longrightarrow>
     show_file env self i sf sfn fo file w =
       (if map_of si ''status_code'' = Some (JInt 404)
        then (case map_of si ''response'' of
                None \<Rightarrow> (Inl KeyError,
                  print (''Requested season '' @ string_of_nat s @ '' for id '' @
                         string_of_int i @ '' and got'') w)
              | Some v \<Rightarrow> (Inr (),
                  w\<lparr>out := out w @ [Text (''Requested season '' @ string_of_nat s @
                      '' for id '' @ string_of_int i @ '' and got''), Repr v]\<rparr>))
        else rename_episode env self sf sfn fo fn (last_piece (CHR ''.'') file)
               (case search_resolution fn of Some r \<Rightarrow> '' ['' @ r @ '']'' | None \<Rightarrow> '''')
               si s e w)"
  by (simp add: show_file_def Let_def print_def split: option.splits)

lemma show_file_plan_rel:
  assumes V: "validate selfV" and P: "plan wV = plan wN"
    and N: "fst (show_file env selfN i sf sfn fo file wN) = Inr ()"
  shows "fst (show_file env selfV i sf' sfn fo' file wV) = Inr () \<and>
         plan (snd (show_file env selfV i sf' sfn fo' file wV)) =
         plan (snd (show_file env selfN i sf sfn fo file wN))"
proof (cases "last_piece (CHR ''.'') file \<in> set INVALID_EXTENSIONS")
  case True
  then show ?thesis using P by (simp add: show_file_invalid_extension)
next
  case ext: False
  show ?thesis
  proof (cases "remove_extension env (last_piece (CHR ''.'') file) file")
    case (Inl ex)
    then show ?thesis using N by (simp add: show_file_sub_raises[OF ext])
  next
    case fn: (Inr fn)
    show ?thesis
    proof (cases "search_season_episode fn")
      case None
      then show ?thesis using P by (simp add: show_file_no_episode[OF ext fn])
    next
      case (Some se)
      obtain s e where se: "search_season_episode fn = Some (s, e)"
        using Some by (cases se) simp
      show ?thesis
      proof (cases "get_tv_season env i s")
        case (Inl ex)
        then show ?thesis using N by (simp add: show_file_season_raises[OF ext fn se])
      next
        case si: (Inr si)
        show ?thesis
        proof (cases "map_of si ''status_code'' = Some (JInt 404)")
          case True
          then show ?thesis using N P
            by (cases "map_of si ''response''")
               (simp_all add: show_file_season[OF ext fn se si])
        next
          case False
          then show ?thesis
            using N rename_episode_plan_rel[OF V P, of env selfN sf sfn fo fn
                "last_piece (CHR ''.'') file" _ si s e sf' fo']
            by (simp add: show_file_season[OF ext fn se si])
        qed
      qed
    qed
  qed
qed

lemma for_each_Cons_ok:
  "fst (for_each body (x # xs) w) = Inr () \<Longrightarrow>
     fst (body x w) = Inr () \<and> fst (for_each body xs (snd (body x w))) = Inr ()"
  by (cases "body x w") (auto split: sum.splits)

lemma for_each_Cons_snd:
  "fst (body x w) = Inr () \<Longrightarrow>
     for_each body (x # xs) w = for_each body xs (snd (body x w))"
  by (cases "body x w") (auto split: sum.splits)

lemma for_each_plan_rel:
  assumes step: "\<And>x wN wV. plan wV = plan wN \<Longrightarrow> fst (bodyN x wN) = Inr () \<Longrightarrow>
      fst (bodyV x wV) = Inr () \<and> plan (snd (bodyV x wV)) = plan (snd (bodyN x wN))"
  shows "plan wV = plan wN \<Longrightarrow> fst (for_each bodyN xs wN) = Inr () \<Longrightarrow>
      fst (for_each bodyV xs wV) = Inr () \<and>
      plan (snd (for_each bodyV xs wV)) = plan (snd (for_each bodyN xs wN))"
proof (induction xs arbitrary: wN wV)
  case Nil
  then show ?case by simp
next
  case (Cons x xs)
  from for_each_Cons_ok[OF Cons.prems(2)]
  have a: "fst (bodyN x wN) = Inr ()"
    and b: "fst (for_each bodyN xs (snd (bodyN x wN))) = Inr ()" by simp_all
  from step[OF Cons.prems(1) a]
  have c: "fst (bodyV x wV) = Inr ()"
    and d: "plan (snd (bodyV x wV)) = plan (snd (bodyN x wN))" by simp_all
  from Cons.IH[OF d b] show ?case
    by (simp only: for_each_Cons_snd[where body=bodyN, OF a]
        for_each_Cons_snd[where body=bodyV, OF c])
qed

lemma for_each_show_file_rel:
  assumes "validate selfV" and "plan wV = plan wN"
    and "fst (for_each (show_file env selfN i sf sfn fo) files wN) = Inr ()"
  shows "fst (for_each (show_file env selfV i sf' sfn fo') files wV) = Inr () \<and>
         plan (snd (for_each (show_file env selfV i sf' sfn fo') files wV)) =
         plan (snd (for_each (show_file env selfN i sf sfn fo) files wN))"
  by (rule for_each_plan_rel[OF _ assms(2,3)]) (rule show_file_plan_rel[OF assms(1)])

lemma plan_raw_rename [simp]: "plan (snd (raw_rename env a b w)) = plan w"
  by (simp add: raw_rename_def split: option.splits)

lemma calls_raw_rename [simp]: "calls (snd (raw_rename env a b w)) = calls w @ [Rename a b]"
  by (simp add: raw_rename_def split: option.splits)

lemma fst_raw_rename:
  "fst (raw_rename env a b w) =
     (case os_rename env (calls w) a b of None \<Rightarrow> Inr () | Some e \<Rightarrow> Inl e)"
  by (simp add: raw_rename_def split: option.splits)

lemma fst_makedirs:
  "fst (makedirs env p w) =
     (case os_makedirs env (calls w) p of None \<Rightarrow> Inr () | Some e \<Rightarrow> Inl e)"
  by (simp add: makedirs_def split: option.splits)

lemma show_tv_dir:
  "os_path_isdir env (calls w) item \<Longrightarrow>
   os_listdir env (calls w) item = Inr items \<Longrightarrow>
   collect_files env (calls w) item items [] = Inr files \<Longrightarrow>
     show_tv env self item i name year w =
       (case fst (rename_base_folder env self item (remove_invalid_characters name) year w) of
          Inl e \<Rightarrow>
            (Inl e, snd (rename_base_folder env self item (remove_invalid_characters name) year w))
        | Inr p \<Rightarrow>
            for_each (show_file env self i (fst p) (snd p) item) files
              (snd (rename_base_folder env self item (remove_invalid_characters name) year w)))"
  by (simp add: show_tv_def Let_def split_beta split: sum.splits prod.splits)

lemma plan_place_file [simp]: "plan (snd (place_file env self item sf fn w)) = plan w"
  by (simp add: place_file_def split_beta split: sum.splits)

lemma show_tv_file:
  "\<not> os_path_isdir env (calls w) item \<Longrightarrow>
     show_tv env self item i name year w =
       (case fst (place_file env self item
                   (os_path_join (join_with [sep] (butlast (split_on sep item)))
                      (remove_invalid_characters name @ '' ('' @ string_of_int year @ '')''))
                   (last_piece sep item) w) of
          Inl e \<Rightarrow>
            (Inl e, snd (place_file env self item
                   (os_path_join (join_with [sep] (butlast (split_on sep item)))
                      (remove_invalid_characters name @ '' ('' @ string_of_int year @ '')''))
                   (last_piece sep item) w))
        | Inr u \<Rightarrow>
            for_each (show_file env self i
                (os_path_join (join_with [sep] (butlast (split_on sep item)))
                   (remove_invalid_characters name @ '' ('' @ string_of_int year @ '')''))
                (remove_invalid_characters name @ '' ('' @ string_of_int year @ '')'')
                (os_path_join (join_with [sep] (butlast (split_on sep item)))
                   (remove_invalid_characters name @ '' ('' @ string_of_int year @ '')'')))
              [last_piece sep item]
              (snd (place_file env self item
                   (os_path_join (join_with [sep] (butlast (split_on sep item)))
                      (remove_invalid_characters name @ '' ('' @ string_of_int year @ '')''))
                   (last_piece sep item) w)))"
  by (simp add: show_tv_def Let_def split_beta del: for_each.simps
      split: sum.splits prod.splits)

lemma show_tv_plan_rel:
  assumes V: "validate selfV" and N: "\<not> validate selfN"
    and ok: "fst (show_tv env selfN item i name year w) = Inr ()"
  shows "fst (show_tv env selfV item i name year w) = Inr () \<and>
         plan (snd (show_tv env selfV item i name year w)) =
         plan (snd (show_tv env selfN item i name year w))"
proof (cases "os_path_isdir env (calls w) item")
  case dir: True
  show ?thesis
  proof (cases "os_listdir env (calls w) item")
    case (Inl e)
    then show ?thesis using ok dir by (simp add: show_tv_def)
  next
    case items: (Inr items)
    show ?thesis
    proof (cases "collect_files env (calls w) item items []")
      case (Inl e)
      then show ?thesis using ok dir items by (simp add: show_tv_def)
    next
      case files: (Inr files)
      let ?n = "remove_invalid_characters name"
      let ?bN = "rename_base_folder env selfN item ?n year w"
      let ?bV = "rename_base_folder env selfV item ?n year w"
      show ?thesis
      proof (cases "fst ?bN")
        case (Inl e)
        then show ?thesis using ok by (simp add: show_tv_dir[OF dir items files])
      next
        case (Inr p)
        have p2: "snd p = ?n @ '' ('' @ string_of_int year @ '')''"
          using Inr
          by (auto simp add: rename_base_folder_def Let_def split_beta
              split: sum.splits if_splits)
        have okN: "fst (for_each (show_file env selfN i (fst p) (snd p) item) files (snd ?bN))
            = Inr ()"
          using ok Inr by (simp add: show_tv_dir[OF dir items files])
        have pl: "plan (snd ?bV) = plan (snd ?bN)" by simp
        from for_each_show_file_rel[OF V pl okN, of item item]
        show ?thesis
          using Inr p2
          by (simp add: show_tv_dir[OF dir items files] rename_base_folder_validate[OF V])
      qed
    qed
  qed
next
  case nodir: False
  let ?sfn = "remove_invalid_characters name @ '' ('' @ string_of_int year @ '')''"
  let ?sf = "os_path_join (join_with [sep] (butlast (split_on sep item))) ?sfn"
  let ?pN = "place_file env selfN item ?sf (last_piece sep item) w"
  let ?pV = "place_file env selfV item ?sf (last_piece sep item) w"
  have pV: "?pV = (Inr (), w)" using V by (simp add: place_file_def)
  show ?thesis
  proof (cases "fst ?pN")
    case (Inl e)
    then show ?thesis using ok
      by (simp add: show_tv_file[OF nodir] del: for_each.simps)
  next
    case (Inr u)
    then have okN: "fst (for_each (show_file env selfN i ?sf ?sfn ?sf) [last_piece sep item]
        (snd ?pN)) = Inr ()"
      using ok by (simp add: show_tv_file[OF nodir] del: for_each.simps)
    have pl: "plan w = plan (snd ?pN)" by simp
    from for_each_show_file_rel[OF V pl okN, of ?sf ?sf]
    show ?thesis
      using Inr pV by (simp add: show_tv_file[OF nodir] del: for_each.simps)
  qed
qed

lemma movie_file_plan_rel:
  assumes "\<not> os_path_isdir env (calls w) item"
  shows "plan (snd (movie env selfV item name year w)) =
         plan (snd (movie env selfN item name year w))"
  using assms
  by (simp add: movie_def Let_def split_beta split: sum.splits)

subsection \<open>Claims about \<^verbatim>\<open>RenameMedia\<close>\<close>

lemma place_file_raises:
  assumes "\<not> validate self"
    and "os_path_isdir env (calls w) show_folder"
    and "os_rename env (calls w) item (os_path_join show_folder file_name) = Some e"
  shows "fst (place_file env self item show_folder file_name w) = Inl e"
  using assms by (simp add: place_file_def fst_raw_rename)

text \<open>
  C3: a move that fails is logged and the operation returns normally, in the movie path
  and in the TV path. \<^verbatim>\<open>__rename\<close> does so (\<open>rename_returns\<close>), and the movie path
  moves a single file with it. The TV path moves a single file into the show folder
  with a direct \<^verbatim>\<open>os.rename\<close> (line 131): when the operating system refuses the move,
  the exception leaves \<^verbatim>\<open>show\<close>, while \<^verbatim>\<open>movie\<close> returns on the same file system.
\<close>

theorem show_single_file_move_raises:
  "fst (show_tv denied_env renamer ''/m/Show.S01E01.mkv'' 42 ''Show'' 2019 empty_world)
     = Inl (OSError ''Permission denied'') \<and>
   fst (movie denied_env renamer ''/m/Movie.2020.mkv'' ''Movie'' 2020 empty_world) = Inr ()"
  by code_simp

text \<open>
  C9: for the single file \<^verbatim>\<open>Movie.Title.2020.1080p.mkv\<close>, the name \<^verbatim>\<open>Movie Title\<close> and
  the year 2020, the folder \<^verbatim>\<open>Movie Title (2020)\<close> is created beside the file when it
  does not exist, and the file is moved to
  \<^verbatim>\<open>Movie Title (2020)/Movie Title (2020) [1080p].mkv\<close>. The calls are the only ones the
  run issues.
\<close>

theorem movie_single_file_destination:
  assumes "\<not> os_path_isdir env (calls w) ''Movie.Title.2020.1080p.mkv''"
    and "\<not> validate self"
    and "os_path_exists env (calls w) ''Movie Title (2020)'' \<or>
         os_mkdir env (calls w) ''Movie Title (2020)'' = None"
  shows "calls (snd (movie env self ''Movie.Title.2020.1080p.mkv'' ''Movie Title'' 2020 w)) =
           calls w @
           (if os_path_exists env (calls w) ''Movie Title (2020)'' then []
            else [Mkdir ''Movie Title (2020)'']) @
           [Rename ''Movie.Title.2020.1080p.mkv''
              ''Movie Title (2020)/Movie Title (2020) [1080p].mkv''] \<and>
         plan (snd (movie env self ''Movie.Title.2020.1080p.mkv'' ''Movie Title'' 2020 w)) =
           plan w @ [[''Movie Title (2020)'', ''Movie Title (2020) [1080p].mkv'']]"
  using assms
  by (auto simp add: movie_def Let_def split_beta m1 m2 m3 m4 m5 m6 m7 m8 m9 fst_mkdir)

theorem movie_single_file_destination_witness:
  "calls (snd (movie plain_env renamer ''Movie.Title.2020.1080p.mkv'' ''Movie Title'' 2020
      empty_world)) =
     [Mkdir ''Movie Title (2020)'',
      Rename ''Movie.Title.2020.1080p.mkv''
        ''Movie Title (2020)/Movie Title (2020) [1080p].mkv''] \<and>
   plan (snd (movie plain_env renamer ''Movie.Title.2020.1080p.mkv'' ''Movie Title'' 2020
      empty_world)) =
     [[''Movie Title (2020)'', ''Movie Title (2020) [1080p].mkv'']]"
proof -
  have a: "\<not> os_path_isdir plain_env (calls empty_world) ''Movie.Title.2020.1080p.mkv''"
    by (simp add: plain_env_def)
  have b: "\<not> validate renamer"
    by (simp add: renamer_def)
  have c: "os_path_exists plain_env (calls empty_world) ''Movie Title (2020)'' \<or>
         os_mkdir plain_env (calls empty_world) ''Movie Title (2020)'' = None"
    by (simp add: plain_env_def)
  show ?thesis
    using movie_single_file_destination [OF a b c]
    by (simp add: plain_env_def empty_world_def)
qed

text \<open>
  C6, as stated: a file whose episode number exceeds the episodes of the season, or
  whose season the catalog answers with 404, is skipped and no call changes the file
  system for that file. When the item is a single file and validate is off, the show
  folder has been created and the file has been moved into it (lines 128-131) before
  the season is looked up: for episode 11 of a season of ten, and for a season the
  catalog does not know, the run has issued both calls.
\<close>

theorem skipped_file_counterexample:
  "search_season_episode ''Show.S01E11'' = Some (1, 11) \<and>
   dict_get ten_episodes ''episodes'' = Inr (JList (replicate 10 (JDict [(''name'', JStr ''Pilot'')]))) \<and>
   py_len (JList (replicate 10 (JDict [(''name'', JStr ''Pilot'')]))) = Inr 10 \<and>
   calls (snd (show_tv plain_env renamer ''/m/Show.S01E11.mkv'' 42 ''Show'' 2019 empty_world)) =
     [Makedirs ''/m/Show (2019)'',
      Rename ''/m/Show.S01E11.mkv'' ''/m/Show (2019)/Show.S01E11.mkv''] \<and>
   calls (snd (show_tv unknown_season_env renamer ''/m/Show.S01E01.mkv'' 42 ''Show'' 2019
      empty_world)) =
     [Makedirs ''/m/Show (2019)'',
      Rename ''/m/Show.S01E01.mkv'' ''/m/Show (2019)/Show.S01E01.mkv'']"
  by code_simp

text \<open>
  C6, amended: the round of the loop for such a file prints its message and does
  nothing else: no call is issued, no name is planned. This holds for a 404 answer that
  has a \<^verbatim>\<open>response\<close> field, and for a season record with a string \<^verbatim>\<open>air_date\<close> and a
  list of \<^verbatim>\<open>episodes\<close> shorter than the episode number. What the run did before the
  loop (the rename of the base folder, the move of a single file into the show folder)
  stands.
\<close>

theorem show_file_skips:
  assumes "last_piece (CHR ''.'') file \<notin> set INVALID_EXTENSIONS"
    and "remove_extension env (last_piece (CHR ''.'') file) file = Inr file_name"
    and "search_season_episode file_name = Some (season, episode)"
    and "get_tv_season env tv_id season = Inr season_info"
  shows "(map_of season_info ''status_code'' = Some (JInt 404) \<longrightarrow>
          map_of season_info ''response'' = Some v \<longrightarrow>
            show_file env self tv_id show_folder show_folder_name folder file w =
              (Inr (),
               w\<lparr>out := out w @
                  [Text (''Requested season '' @ string_of_nat season @ '' for id '' @
                         string_of_int tv_id @ '' and got''),
                   Repr v]\<rparr>)) \<and>
         (map_of season_info ''status_code'' \<noteq> Some (JInt 404) \<longrightarrow>
          map_of season_info ''air_date'' = Some (JStr air_date) \<longrightarrow>
          map_of season_info ''episodes'' = Some (JList episodes) \<longrightarrow>
          length episodes < episode \<longrightarrow>
            show_file env self tv_id show_folder show_folder_name folder file w =
              (Inr (),
               print (''Episode S'' @ convert_int_to_str season @ ''E'' @
                      convert_int_to_str episode @ '' doesn'' @ quote @
                      ''t appear to exist, so skipping.'') w))"
  by (simp add: show_file_season[OF assms] rename_episode_def air_year_def dict_get_def
      py_len_def)

theorem show_file_skips_witness:
  "show_file plain_env renamer 42 ''/m/Show (2019)'' ''Show (2019)'' ''/m/Show (2019)''
     ''Show.S01E11.mkv'' empty_world =
     (Inr (),
      print (''Episode S01E11 doesn'' @ quote @ ''t appear to exist, so skipping.'')
        empty_world) \<and>
   show_file unknown_season_env renamer 42 ''/m/Show (2019)'' ''Show (2019)'' ''/m/Show (2019)''
     ''Show.S01E11.mkv'' empty_world =
     (Inr (),
      empty_world\<lparr>out := [Text ''Requested season 1 for id 42 and got'',
                          Repr (JDict [(''status_code'', JInt 34)])]\<rparr>)"
proof -
  have a: "last_piece (CHR ''.'') ''Show.S01E11.mkv'' \<notin> set INVALID_EXTENSIONS"
    by code_simp
  have b: "remove_extension plain_env (last_piece (CHR ''.'') ''Show.S01E11.mkv'')
      ''Show.S01E11.mkv'' = Inr ''Show.S01E11''"
    by code_simp
  have b': "remove_extension unknown_season_env (last_piece (CHR ''.'') ''Show.S01E11.mkv'')
      ''Show.S01E11.mkv'' = Inr ''Show.S01E11''"
    by code_simp
  have c: "search_season_episode ''Show.S01E11'' = Some (1, 11)"
    by code_simp
  have d: "get_tv_season plain_env 42 1 = Inr ten_episodes"
    by (simp add: plain_env_def)
  have d': "get_tv_season unknown_season_env 42 1 =
      Inr [(''status_code'', JInt 404), (''response'', JDict [(''status_code'', JInt 34)])]"
    by (simp add: unknown_season_env_def plain_env_def)
  have e: "convert_int_to_str 1 = ''01''" "convert_int_to_str 11 = ''11''"
    "string_of_nat 1 = ''1''" "string_of_int 42 = ''42''"
    "convert_int_to_str (Suc 0) = ''01''" "string_of_nat (Suc 0) = ''1''"
    by code_simp+
  show ?thesis
    using show_file_skips [where v = JNull and air_date = "''2019-01-02''"
        and episodes = "replicate 10 (JDict [(''name'', JStr ''Pilot'')])" and self = renamer
        and show_folder = "''/m/Show (2019)''" and show_folder_name = "''Show (2019)''"
        and folder = "''/m/Show (2019)''" and w = empty_world, OF a b c d]
      show_file_skips [where v = "JDict [(''status_code'', JInt 34)]" and air_date = "[]"
        and episodes = "[]" and self = renamer
        and show_folder = "''/m/Show (2019)''" and show_folder_name = "''Show (2019)''"
        and folder = "''/m/Show (2019)''" and w = empty_world, OF a b' c d']
    by (simp add: ten_episodes_def e empty_world_def)
qed

text \<open>
  What holds of a run with validate: the show pipeline and the movie pipeline issue no
  call that changes the file system, whether they end normally or with an exception.
  The show pipeline with validate computes the three names (show folder, season folder,
  file) that a run without validate computes when that run ends without an exception,
  and the movie pipeline computes the same names in both modes for an item that is a
  single file.
\<close>

lemma validate_mode:
  "(validate self \<longrightarrow>
      calls (snd (show_tv env self item tv_id name year w)) = calls w \<and>
      calls (snd (movie env self item name year w)) = calls w) \<and>
   (validate self \<longrightarrow> \<not> validate self' \<longrightarrow>
    fst (show_tv env self' item tv_id name year w) = Inr () \<longrightarrow>
      fst (show_tv env self item tv_id name year w) = Inr () \<and>
      plan (snd (show_tv env self item tv_id name year w)) =
      plan (snd (show_tv env self' item tv_id name year w))) \<and>
   (\<not> os_path_isdir env (calls w) item \<longrightarrow>
      plan (snd (movie env self item name year w)) =
      plan (snd (movie env self' item name year w)))"
  using show_tv_validate[of self env item tv_id name year w]
    movie_validate[of self env item name year w]
    show_tv_plan_rel[of self self' env item tv_id name year w]
    movie_file_plan_rel[of env w item self name year self']
  by blast

lemma validate_mode_single_files:
  "calls (snd (show_tv plain_env validator ''/m/Show.S01E01.1080p.mkv'' 42 ''Show'' 2019
      empty_world)) = [] \<and>
   plan (snd (show_tv plain_env validator ''/m/Show.S01E01.1080p.mkv'' 42 ''Show'' 2019
      empty_world)) =
     [[''Show (2019)'', ''Season 1 (2019) [1080p]'', ''S01E01 - Pilot.mkv'']] \<and>
   calls (snd (movie plain_env validator ''/m/Movie.2020.720p.mkv'' ''Movie'' 2020
      empty_world)) = [] \<and>
   plan (snd (movie plain_env validator ''/m/Movie.2020.720p.mkv'' ''Movie'' 2020
      empty_world)) =
     [[''Movie (2020)'', ''Movie (2020) [720p].mkv'']]"
proof -
  have v: "validate validator" "\<not> validate renamer"
    by (simp_all add: validator_def renamer_def)
  have ok: "fst (show_tv plain_env renamer ''/m/Show.S01E01.1080p.mkv'' 42 ''Show'' 2019
      empty_world) = Inr ()"
    by code_simp
  have ps: "plan (snd (show_tv plain_env renamer ''/m/Show.S01E01.1080p.mkv'' 42 ''Show''
      2019 empty_world)) =
     [[''Show (2019)'', ''Season 1 (2019) [1080p]'', ''S01E01 - Pilot.mkv'']]"
    by code_simp
  have pm: "plan (snd (movie plain_env renamer ''/m/Movie.2020.720p.mkv'' ''Movie'' 2020
      empty_world)) = [[''Movie (2020)'', ''Movie (2020) [720p].mkv'']]"
    by code_simp
  have nd: "\<not> os_path_isdir plain_env (calls empty_world) ''/m/Movie.2020.720p.mkv''"
    by (simp add: plain_env_def)
  have ce: "calls empty_world = []"
    by (simp add: empty_world_def)
  show ?thesis
    using validate_mode [where self = validator and self' = renamer and env = plain_env
        and item = "''/m/Show.S01E01.1080p.mkv''" and tv_id = 42 and name = "''Show''"
        and year = 2019 and w = empty_world]
      validate_mode [where self = validator and self' = renamer and env = plain_env
        and item = "''/m/Movie.2020.720p.mkv''" and tv_id = 42 and name = "''Movie''"
        and year = 2020 and w = empty_world]
      v ok ps pm nd ce
    by simp
qed

text \<open>
  For a folder the run with validate keeps the original path where the run without
  continues with the renamed one (line 42). For the show folder \<^verbatim>\<open>/tv/Show\<close> the two
  runs compute the same three names, but the run with validate announces the season
  folder under the old path while the run without creates it under the new one.
\<close>

lemma validate_show_directory_paths:
  "out (snd (show_tv show_dir_env validator ''/tv/Show'' 42 ''Show'' 2019 empty_world)) =
     [Text (''Renaming:'' @ newline @ ''/tv/Show'' @ newline @ ''to:'' @ newline @
            ''/tv/Show (2019)/''),
      Text ''Creating /tv/Show/Season 1 (2019)''] \<and>
   calls (snd (show_tv show_dir_env renamer ''/tv/Show'' 42 ''Show'' 2019 empty_world)) =
     [Rename ''/tv/Show'' ''/tv/Show (2019)/'',
      Makedirs ''/tv/Show (2019)/Season 1 (2019)'',
      Rename ''/tv/Show/Show.S01E01.mkv''
        ''/tv/Show (2019)/Season 1 (2019)/S01E01 - Pilot.mkv'']"
  by code_simp

text \<open>
  C5: a run with validate computes the same destination names as a run without, and
  changes nothing in the file system. For the movie folder \<^verbatim>\<open>/1080p/Foo\<close> that holds
  \<^verbatim>\<open>foo.mkv\<close>, the run without validate renames the folder to \<^verbatim>\<open>/1080p/Foo (2020)/\<close>
  and continues with that path (lines 35 and 42). \<^verbatim>\<open>__get_resolution\<close> finds no
  resolution in the file name and looks at \<^verbatim>\<open>basename(dirname(folder))\<close> (line 238),
  which is now the name \<^verbatim>\<open>Foo (2020)\<close> just built: the file becomes \<^verbatim>\<open>Foo (2020).mkv\<close>.
  The run with validate keeps \<^verbatim>\<open>/1080p/Foo\<close>, looks at the directory above it,
  \<^verbatim>\<open>1080p\<close>, and announces \<^verbatim>\<open>Foo (2020) [1080p].mkv\<close>, a name the other run does not
  give. Both runs end normally and the run with validate issues no call.
\<close>

theorem validate_movie_directory_diverges:
  "fst (movie plain_env renamer ''/1080p/Foo'' ''Foo'' 2020 empty_world) = Inr () \<and>
   calls (snd (movie plain_env renamer ''/1080p/Foo'' ''Foo'' 2020 empty_world)) =
     [Rename ''/1080p/Foo'' ''/1080p/Foo (2020)/'',
      Rename ''/1080p/Foo (2020)/foo.mkv'' ''/1080p/Foo (2020)/Foo (2020).mkv''] \<and>
   plan (snd (movie plain_env renamer ''/1080p/Foo'' ''Foo'' 2020 empty_world)) =
     [[''Foo (2020)'', ''Foo (2020).mkv'']] \<and>
   fst (movie plain_env validator ''/1080p/Foo'' ''Foo'' 2020 empty_world) = Inr () \<and>
   calls (snd (movie plain_env validator ''/1080p/Foo'' ''Foo'' 2020 empty_world)) = [] \<and>
   plan (snd (movie plain_env validator ''/1080p/Foo'' ''Foo'' 2020 empty_world)) =
     [[''Foo (2020)'', ''Foo (2020) [1080p].mkv'']] \<and>
   last (out (snd (movie plain_env validator ''/1080p/Foo'' ''Foo'' 2020 empty_world))) =
     Text (''Renaming '' @ quote @ ''foo.mkv'' @ quote @ '' to '' @ quote @
           ''Foo (2020) [1080p].mkv'' @ quote) \<and>
   last (out (snd (movie plain_env renamer ''/1080p/Foo'' ''Foo'' 2020 empty_world))) =
     Text (''Renaming '' @ quote @ ''foo.mkv'' @ quote @ '' to '' @ quote @
           ''Foo (2020).mkv'' @ quote)"
  by code_simp

subsection \<open>Claims about the manual entry\<close>

lemma stdin_say [simp]: "stdin (say pieces c) = stdin c"
  by (simp add: say_def)

lemma py_input_Cons:
  "stdin c = line # rest \<Longrightarrow> py_input prompt c = (Inr line, say prompt (c\<lparr>stdin := rest\<rparr>))"
  by (simp add: py_input_def)

lemma ask_year_accepts:
  assumes "stdin c = year # rest" and "year_format year"
  shows "ask_year c =
    (Inr (int (int_of_digits (take 4 year))),
     say [Lit ''What is the year of release? ''] (c\<lparr>stdin := rest\<rparr>))"
  using assms by (subst ask_year.simps) (simp add: py_input_Cons)

lemma ask_type_accepts:
  assumes "stdin c = type # rest" and "lower (lower type) \<in> set SUPPORTED_TYPES"
  shows "ask_type c =
    (Inr (lower (lower type)),
     say [Lit ''What type of media is it (tv/movie)? ''] (c\<lparr>stdin := rest\<rparr>))"
  using assms by (subst ask_type.simps) (simp add: py_input_Cons)

lemma manual_round_raises:
  assumes "stdin c = title # year # type # rest"
    and "year_format year"
    and "lower (lower type) \<in> set SUPPORTED_TYPES"
    and "(if lower (lower type) = ''tv''
          then search_tv catalog title (Some (int (int_of_digits (take 4 year))))
          else search_movies catalog title (Some (int (int_of_digits (take 4 year)))))
         = Inr results"
    and "results \<noteq> []"
  shows "fst (manual_round catalog self c) = Inl TypeError"
proof -
  have "lower (lower type) = ''tv'' \<or> lower (lower type) = ''movie''"
    using assms(3) by (auto simp add: SUPPORTED_TYPES_def)
  then show ?thesis
    using assms
    by (auto simp add: manual_round_def Let_def py_input_Cons ask_year_accepts
        ask_type_accepts search_media_def call_evaluate_results_def)
qed

lemma manual_round_identity:
  assumes "manual_round catalog self c = (Inr self', c')" and "\<not> identified self"
  shows "\<not> identified self'"
  using assms
  by (auto simp add: manual_round_def Let_def call_evaluate_results_def identified_def
      split: prod.splits sum.splits if_splits)

lemma manual_entry_never_returns:
  "\<not> identified self \<Longrightarrow> \<exists>e. fst (manual_entry catalog self c) = Inl e"
proof (induction catalog self c rule: manual_entry.induct)
  case (1 catalog self c)
  show ?case
  proof (cases "manual_round catalog self c")
    case (Pair r c')
    show ?thesis
    proof (cases r)
      case (Inl e)
      then show ?thesis
        using Pair "1.prems" by (subst manual_entry.simps) simp
    next
      case (Inr self')
      have "\<not> identified self'"
        using manual_round_identity Pair Inr "1.prems" by blast
      from "1.IH"[OF "1.prems" Pair[symmetric] Inr this]
      show ?thesis
        using Pair Inr "1.prems" by (subst manual_entry.simps) simp
    qed
  qed
qed

text \<open>
  C4: when the automated search finds no identity and the user types a title, a year of
  four digits and a type, the engine searches, evaluates the results and asks for
  confirmation, without raising an exception. The call at line 314 gives
  \<^verbatim>\<open>__evaluate_results\<close> one argument where the method takes two: for the answers
  \<^verbatim>\<open>Alien\<close>, \<^verbatim>\<open>1979\<close>, \<^verbatim>\<open>movie\<close> and a catalog that finds the film, the loop ends with
  \<^verbatim>\<open>TypeError\<close> after it has read the three answers, and nothing is asked for
  confirmation. The same call with the folder name as second argument, as line 452
  makes it, returns with the film as candidate.
\<close>

theorem manual_entry_raises_TypeError:
  "fst (manual_entry alien_catalog unidentified \<lparr>stdin = [''Alien'', ''1979'', ''movie''], screen = []\<rparr>)
     = Inl TypeError \<and>
   snd (manual_entry alien_catalog unidentified \<lparr>stdin = [''Alien'', ''1979'', ''movie''], screen = []\<rparr>)
     = \<lparr>stdin = [],
        screen =
          [[Lit (newline @ ''No identity could be located the following: /m/Alien.1979.mkv'')],
           [Lit ''So the following informaiton is required:''],
           [Lit ''What is the title of the media? ''],
           [Lit ''What is the year of release? ''],
           [Lit ''What type of media is it (tv/movie)? '']]\<rparr> \<and>
   call_evaluate_results unidentified alien_answer [] = Inl TypeError \<and>
   call_evaluate_results unidentified alien_answer [''Alien.1979.mkv'']
     = Inr (unidentified\<lparr>im_potential := [alien]\<rparr>)"
  by code_simp

end
